theory Spec2Isabelle
  imports Complex_Main
begin

section \<open>JavaScript strings, values and exceptions\<close>

text \<open>
  A JavaScript string is a sequence of UTF-16 code units. A code unit is modelled as a
  natural number (below 65536 for every string a browser can hold); \<open>js\<close> turns a literal
  of the theory into such a sequence.
\<close>

type_synonym jsstring = "nat list"

definition js :: "string \<Rightarrow> jsstring" where
  "js s = map of_char s"

text \<open>
  A number is a rational (the finite doubles are among them), \<open>NaN\<close> or an infinity.
\<close>

datatype number = Finite rat | NaN | PosInfinity | NegInfinity

text \<open>
  The values the callback of \<open>gtag\<close> can hand over: the primitive values, an object without
  a method \<open>then\<close> (known by a number), and a thenable. A thenable is known by what its
  \<open>then\<close> does with the two functions a promise hands it: it never calls either, or after
  some time it calls the first with a value, or after some time it calls the second with a
  reason (a \<open>then\<close> that throws is a call of the second at once).
\<close>

datatype jsval =
    JUndefined | JNull | JBool bool | JNum number | JStr jsstring | JObject nat
  | JThenable then_run
and then_run = NeverCalls | Fulfils nat jsval | Rejects nat jsval

text \<open>Truthiness (\<open>x || ''\<close>, \<open>if (x)\<close>, \<open>x ? a : b\<close>): every object is truthy.\<close>

fun truthy :: "jsval \<Rightarrow> bool" where
  "truthy JUndefined = False"
| "truthy JNull = False"
| "truthy (JBool b) = b"
| "truthy (JNum n) = (case n of Finite q \<Rightarrow> q \<noteq> 0 | NaN \<Rightarrow> False | _ \<Rightarrow> True)"
| "truthy (JStr s) = (s \<noteq> [])"
| "truthy (JObject _) = True"
| "truthy (JThenable _) = True"

fun is_thenable :: "jsval \<Rightarrow> bool" where
  "is_thenable (JThenable _) = True"
| "is_thenable _ = False"

text \<open>
  What the code can throw: \<open>URIError\<close> from \<open>decodeURIComponent\<close>, what reading
  \<open>document.cookie\<close> throws where the page may not read its cookies (\<open>SecurityError\<close>), what
  the engine throws when it refuses a regular expression (\<open>SyntaxError\<close>), the error of
  calling \<open>gtag\<close> when it is not a function, and whatever \<open>gtag\<close> throws or a thenable
  gives as its reason.
\<close>

datatype error = URIError | SecurityError | SyntaxError | NotCallable | Thrown jsval

section \<open>The cookie reader\<close>

subsection \<open>The regular expression of \<open>readCookie\<close>\<close>

text \<open>
  \<open>readCookie\<close> matches \<open>document.cookie\<close> against the pattern
  \<^verbatim>\<open>(^|;)\s*\<close> \<open>name\<close> \<^verbatim>\<open>\s*=\s*([^;]+)\<close>,
  where every character of \<open>name\<close> that is a syntax character of regular expressions
  (and \<^verbatim>\<open>-\<close> and \<^verbatim>\<open>/\<close>) is escaped with a backslash first, so that the name stands
  for itself. The matcher below is the backtracking matcher of ECMAScript specialised to
  this pattern: every piece returns the list of its possible continuations in the order in
  which the matcher tries them (greedy quantifiers: longest first), and the first
  continuation of the whole pattern is the match.
\<close>

definition is_space :: "nat \<Rightarrow> bool" where
  \<comment> \<open>the class \<^verbatim>\<open>\s\<close>: WhiteSpace and LineTerminator code units\<close>
  "is_space c \<longleftrightarrow>
     c = 0x09 \<or> c = 0x0A \<or> c = 0x0B \<or> c = 0x0C \<or> c = 0x0D \<or> c = 0x20 \<or> c = 0xA0 \<or>
     c = 0x1680 \<or> (0x2000 \<le> c \<and> c \<le> 0x200A) \<or> c = 0x2028 \<or> c = 0x2029 \<or>
     c = 0x202F \<or> c = 0x205F \<or> c = 0x3000 \<or> c = 0xFEFF"

fun star_space :: "jsstring \<Rightarrow> jsstring list" where
  \<comment> \<open>\<^verbatim>\<open>\s*\<close>: what is left of the input after each possible match, longest match first\<close>
  "star_space [] = [[]]"
| "star_space (c # cs) = (if is_space c then star_space cs else []) @ [c # cs]"

definition literal :: "jsstring \<Rightarrow> jsstring \<Rightarrow> jsstring list" where
  \<comment> \<open>a sequence of characters that stand for themselves\<close>
  "literal p s = (if take (length p) s = p then [drop (length p) s] else [])"

definition group1 :: "bool \<Rightarrow> jsstring \<Rightarrow> jsstring list" where
  \<comment> \<open>\<^verbatim>\<open>(^|;)\<close>: the start of the input (tried first), or a semicolon\<close>
  "group1 at_start s =
     (if at_start then [s] else []) @
     (case s of [] \<Rightarrow> [] | c # cs \<Rightarrow> if c = 0x3B then [cs] else [])"

definition plus_not_semicolon :: "jsstring \<Rightarrow> jsstring list" where
  \<comment> \<open>\<^verbatim>\<open>([^;]+)\<close> at the end of the pattern: the captured texts, longest first\<close>
  "plus_not_semicolon s =
     (let run = takeWhile (\<lambda>c. c \<noteq> 0x3B) s
      in map (\<lambda>n. take n run) (rev [1..<Suc (length run)]))"

definition cookie_pattern :: "jsstring \<Rightarrow> bool \<Rightarrow> jsstring \<Rightarrow> jsstring list" where
  \<comment> \<open>the captures of the last group for every way the pattern matches at this position\<close>
  "cookie_pattern name at_start s =
     [v. s1 \<leftarrow> group1 at_start s, s2 \<leftarrow> star_space s1, s3 \<leftarrow> literal name s2,
         s4 \<leftarrow> star_space s3, s5 \<leftarrow> literal [0x3D] s4, s6 \<leftarrow> star_space s5,
         v \<leftarrow> plus_not_semicolon s6]"

fun regexp_exec :: "jsstring \<Rightarrow> bool \<Rightarrow> jsstring \<Rightarrow> jsstring option" where
  \<comment> \<open>\<open>String.prototype.match\<close> without the global flag: the leftmost position at which the
      pattern matches, and there the first match; the result is the last capture (\<open>m.pop()\<close>)\<close>
  "regexp_exec name at_start [] =
     (case cookie_pattern name at_start [] of v # _ \<Rightarrow> Some v | [] \<Rightarrow> None)"
| "regexp_exec name at_start (c # cs) =
     (case cookie_pattern name at_start (c # cs) of
        v # _ \<Rightarrow> Some v
      | [] \<Rightarrow> regexp_exec name False cs)"

subsection \<open>\<open>decodeURIComponent\<close>\<close>

text \<open>
  The abstract operation Decode of ECMAScript with an empty set of preserved escapes: a
  code unit other than \<^verbatim>\<open>%\<close> is copied; \<^verbatim>\<open>%XX\<close> is an octet; an octet with leading one
  bits starts a UTF-8 sequence whose other octets are escapes as well. A \<^verbatim>\<open>%\<close> not followed
  by two hexadecimal digits, or octets that are not the UTF-8 encoding of a code point,
  throw \<open>URIError\<close>.
\<close>

definition hex_digit :: "nat \<Rightarrow> nat option" where
  "hex_digit c =
     (if 0x30 \<le> c \<and> c \<le> 0x39 then Some (c - 0x30)
      else if 0x41 \<le> c \<and> c \<le> 0x46 then Some (c - 0x41 + 10)
      else if 0x61 \<le> c \<and> c \<le> 0x66 then Some (c - 0x61 + 10)
      else None)"

fun parse_hex_octet :: "jsstring \<Rightarrow> nat option" where
  "parse_hex_octet (h1 # h2 # _) =
     (case hex_digit h1 of
        None \<Rightarrow> None
      | Some a \<Rightarrow> (case hex_digit h2 of None \<Rightarrow> None | Some b \<Rightarrow> Some (16 * a + b)))"
| "parse_hex_octet _ = None"

definition leading_ones :: "nat \<Rightarrow> nat" where
  \<comment> \<open>the number of leading one bits of an octet (5 stands for five or more)\<close>
  "leading_ones b =
     (if b < 0x80 then 0 else if b < 0xC0 then 1 else if b < 0xE0 then 2
      else if b < 0xF0 then 3 else if b < 0xF8 then 4 else 5)"

fun continuation :: "nat \<Rightarrow> jsstring \<Rightarrow> (nat list \<times> jsstring) option" where
  \<comment> \<open>the next \<open>n\<close> escapes \<^verbatim>\<open>%XX\<close>: their octets and the rest of the input\<close>
  "continuation 0 s = Some ([], s)"
| "continuation (Suc n) [] = None"
| "continuation (Suc n) (c # cs) =
     (if c \<noteq> 0x25 then None
      else (case parse_hex_octet cs of
              None \<Rightarrow> None
            | Some b \<Rightarrow> (case continuation n (drop 2 cs) of
                          None \<Rightarrow> None
                        | Some (bs, r) \<Rightarrow> Some (b # bs, r))))"

definition utf8_code_point :: "nat \<Rightarrow> nat list \<Rightarrow> nat option" where
  \<comment> \<open>the code point of a lead octet and its continuation octets, when they are well-formed
      UTF-8: continuation octets in 80..BF, no overlong form, no surrogate, at most 10FFFF\<close>
  "utf8_code_point b bs =
     (let n = Suc (length bs);
          v = foldl (\<lambda>a c. a * 64 + (c - 0x80)) (b mod 2 ^ (7 - n)) bs;
          lowest = (if n = 2 then 0x80 else if n = 3 then 0x800 else 0x10000)
      in if list_all (\<lambda>c. 0x80 \<le> c \<and> c \<le> 0xBF) bs \<and> lowest \<le> v \<and> v \<le> 0x10FFFF \<and>
            \<not> (0xD800 \<le> v \<and> v \<le> 0xDFFF)
         then Some v else None)"

definition utf16_encode :: "nat \<Rightarrow> jsstring" where
  "utf16_encode v =
     (if v < 0x10000 then [v]
      else [0xD800 + (v - 0x10000) div 0x400, 0xDC00 + (v - 0x10000) mod 0x400])"

lemma continuation_length: "continuation n s = Some (bs, r) \<Longrightarrow> length r \<le> length s"
proof (induction n s arbitrary: bs r rule: continuation.induct)
  case (1 s)
  then show ?case by simp
next
  case (2 n)
  then show ?case by simp
next
  case (3 n c cs)
  from "3.prems" obtain b bs' where b: "parse_hex_octet cs = Some b"
    and c: "continuation n (drop 2 cs) = Some (bs', r)"
    by (auto split: if_splits option.splits)
  from "3.IH" [OF _ b c] "3.prems" have "length r \<le> length (drop 2 cs)"
    by (auto split: if_splits)
  then show ?case by simp
qed

function decodeURIComponent :: "jsstring \<Rightarrow> error + jsstring" where
  "decodeURIComponent [] = Inr []"
| "decodeURIComponent (c # cs) =
     (if c \<noteq> 0x25 then
        (case decodeURIComponent cs of Inl e \<Rightarrow> Inl e | Inr r \<Rightarrow> Inr (c # r))
      else
        (case parse_hex_octet cs of
           None \<Rightarrow> Inl URIError
         | Some b \<Rightarrow>
             if leading_ones b = 0 then
               (case decodeURIComponent (drop 2 cs) of Inl e \<Rightarrow> Inl e | Inr r \<Rightarrow> Inr (b # r))
             else if leading_ones b = 1 \<or> leading_ones b > 4 then Inl URIError
             else
               (case continuation (leading_ones b - 1) (drop 2 cs) of
                  None \<Rightarrow> Inl URIError
                | Some (bs, rest) \<Rightarrow>
                    (case utf8_code_point b bs of
                       None \<Rightarrow> Inl URIError
                     | Some v \<Rightarrow>
                         (case decodeURIComponent rest of
                            Inl e \<Rightarrow> Inl e
                          | Inr r \<Rightarrow> Inr (utf16_encode v @ r))))))"
  by pat_completeness auto
termination
proof (relation "measure length", goal_cases)
  case 1
  then show ?case by simp
next
  case (2 c cs)
  then show ?case by simp
next
  case (3 c cs b)
  then show ?case by simp
next
  case (4 c cs b x bs rest)
  then have "length rest \<le> length (drop 2 cs)"
    using continuation_length by metis
  then show ?case by simp
qed


section \<open>The page: ambient state and effects\<close>

text \<open>
  What the code meets on the page, at one instant: \<open>document.cookie\<close>, or the exception that
  reading it throws; the exception, if any, with which the engine refuses to build or to
  compile the pattern of \<open>readCookie\<close> for a name (a pattern beyond the engine's limits);
  whether \<open>typeof window.gtag\<close> is \<open>'function'\<close>; whether
  \<open>typeof window.google_tag_manager\<close> is other than \<open>'undefined'\<close>; what
  \<open>gtag('get', measurementId, property, callback)\<close> does when \<open>gtag\<close> is a function: the
  values it passes to the callback before it returns, whether it ends by throwing, and the
  values it passes to the callback later, each with the time that has passed since the call;
  and how much later than its delay a timer set at this instant fires. \<open>console.warn\<close> is
  taken to return.
\<close>

record gtag_run =
  sync_calls :: "jsval list"
  thrown :: "error option"
  later_calls :: "(nat \<times> jsval) list"

record env =
  cookie :: jsstring
  cookie_error :: "error option"
  pattern_error :: "jsstring \<Rightarrow> error option"
  timer_lag :: nat
  gtag_is_function :: bool
  gtm_defined :: bool
  gtag_get :: "jsstring \<Rightarrow> jsstring \<Rightarrow> gtag_run"

text \<open>
  Everything a function does besides returning is recorded, in order: the reads of the
  ambient state, the calls of \<open>gtag\<close> and \<open>setTimeout\<close>, and the warnings.
\<close>

datatype effect =
    ReadCookie
  | ReadGtagType
  | ReadGtmType
  | CallGtag jsstring jsstring
  | SetTimeout number
  | Warn jsstring error

fun is_read :: "effect \<Rightarrow> bool" where
  "is_read ReadCookie = True"
| "is_read ReadGtagType = True"
| "is_read ReadGtmType = True"
| "is_read _ = False"

subsection \<open>\<open>readCookie\<close> and the two accessors\<close>

text \<open>
  \<^verbatim>\<open>const m = document.cookie.match(...); return m ? decodeURIComponent(m.pop()) : '';\<close>
  \<open>document.cookie\<close> is read first, then the pattern is built and compiled, then it is
  matched; the first exception ends the call.
\<close>

definition readCookie :: "env \<Rightarrow> jsstring \<Rightarrow> (error + jsstring) \<times> effect list" where
  "readCookie e name =
     (case cookie_error e of
        Some err \<Rightarrow> (Inl err, [ReadCookie])
      | None \<Rightarrow>
          (case pattern_error e name of
             Some err \<Rightarrow> (Inl err, [ReadCookie])
           | None \<Rightarrow>
               (case regexp_exec name True (cookie e) of
                  Some m \<Rightarrow> (decodeURIComponent m, [ReadCookie])
                | None \<Rightarrow> (Inr [], [ReadCookie]))))"

fun split :: "nat \<Rightarrow> jsstring \<Rightarrow> jsstring list" where
  \<comment> \<open>\<open>String.prototype.split\<close> with a separator of one code unit\<close>
  "split sep [] = [[]]"
| "split sep (c # cs) =
     (if c = sep then [] # split sep cs
      else (case split sep cs of [] \<Rightarrow> [[c]] | f # fs \<Rightarrow> (c # f) # fs))"

definition getClientIdFromCookie :: "env \<Rightarrow> (error + jsstring) \<times> effect list" where
  "getClientIdFromCookie e =
     (case readCookie e (js ''_ga'') of
        (Inl err, fx) \<Rightarrow> (Inl err, fx)
      | (Inr v, fx) \<Rightarrow>
          if v = [] then (Inr [], fx)
          else (let parts = split 0x2E v
                in if length parts \<ge> 4 then (Inr (parts ! 2 @ js ''.'' @ parts ! 3), fx)
                   else (Inr [], fx)))"

fun remove_first :: "jsstring \<Rightarrow> jsstring \<Rightarrow> jsstring" where
  \<comment> \<open>\<open>s.replace(/p/, '')\<close> for a pattern of plain characters: the leftmost occurrence goes\<close>
  "remove_first p [] = []"
| "remove_first p (c # cs) =
     (if take (length p) (c # cs) = p then drop (length p) (c # cs)
      else c # remove_first p cs)"

definition getSessionIdFromCookie ::
  "env \<Rightarrow> jsstring \<Rightarrow> (error + jsstring) \<times> effect list" where
  "getSessionIdFromCookie e measurementId =
     (let cookieName = js ''_ga_'' @ remove_first (js ''G-'') measurementId
      in case readCookie e cookieName of
           (Inl err, fx) \<Rightarrow> (Inl err, fx)
         | (Inr v, fx) \<Rightarrow>
             if v = [] then (Inr [], fx)
             else (let p = split 0x2E v
                   in if length p \<ge> 3 then (Inr (p ! 2), fx) else (Inr [], fx)))"

subsection \<open>\<open>isGtagAvailable\<close>\<close>

text \<open>
  \<^verbatim>\<open>typeof window.gtag === 'function' && typeof window.google_tag_manager !== 'undefined' && measurementId\<close>:
  \<open>&&\<close> returns its left operand when that is falsy and does not look at the right one,
  so the result is \<open>false\<close> or the measurement id itself.
\<close>

definition isGtagAvailable :: "env \<Rightarrow> jsstring \<Rightarrow> jsval \<times> effect list" where
  "isGtagAvailable e measurementId =
     (if \<not> gtag_is_function e then (JBool False, [ReadGtagType])
      else if \<not> gtm_defined e then (JBool False, [ReadGtagType, ReadGtmType])
      else (JStr measurementId, [ReadGtagType, ReadGtmType]))"

section \<open>Promises and time\<close>

text \<open>
  Time is counted in the units of \<open>setTimeout\<close>, and the page is a function of time: it may
  change from one instant to the next, and what runs at one instant sees one page. A
  promise is the list of the calls of its \<open>resolve\<close> and \<open>reject\<close> functions, each with its
  time, in the order in which they happen: the first one decides and the others do
  nothing. An empty list is a promise that stays pending for ever.
\<close>

type_synonym world = "nat \<Rightarrow> env"

datatype 'a attempt = Resolve 'a | Reject error

type_synonym 'a promise = "(nat \<times> 'a attempt) list"

definition settled :: "'a promise \<Rightarrow> (nat \<times> 'a attempt) option" where
  \<comment> \<open>how a promise settles whose values are no thenables\<close>
  "settled p = (case p of [] \<Rightarrow> None | x # _ \<Rightarrow> Some x)"

fun follow :: "nat \<Rightarrow> jsval \<Rightarrow> (nat \<times> jsval attempt) option" where
  \<comment> \<open>\<open>resolve(x)\<close> at a time: a value that is no thenable fulfils the promise; a thenable is
      followed, and the promise settles as and when the thenable says\<close>
  "follow t (JThenable NeverCalls) = None"
| "follow t (JThenable (Fulfils d x)) = follow (t + d) x"
| "follow t (JThenable (Rejects d x)) = Some (t + d, Reject (Thrown x))"
| "follow t x = Some (t, Resolve x)"

definition outcome :: "jsval promise \<Rightarrow> (nat \<times> jsval attempt) option" where
  \<comment> \<open>how and when a promise settles: its first call decides, also when it settles later
      than another call would have\<close>
  "outcome p =
     (case p of
        [] \<Rightarrow> None
      | (t, Reject err) # _ \<Rightarrow> Some (t, Reject err)
      | (t, Resolve x) # _ \<Rightarrow> follow t x)"

definition state_at :: "jsval promise \<Rightarrow> nat \<Rightarrow> jsval attempt option" where
  \<comment> \<open>the state of the promise at a time, from the calls made up to then: \<open>None\<close> is
      pending\<close>
  "state_at p t =
     (case filter (\<lambda>x. fst x \<le> t) p of
        [] \<Rightarrow> None
      | x # _ \<Rightarrow>
          (case outcome [x] of
             None \<Rightarrow> None
           | Some (t', a) \<Rightarrow> if t' \<le> t then Some a else None))"

definition race :: "jsval promise list \<Rightarrow> jsval promise" where
  \<comment> \<open>\<open>Promise.race\<close>: each promise, when it settles, settles the result the same way; of two
      that settle at the same time the one that stands first counts as the earlier\<close>
  "race ps = sort_key fst (List.map_filter outcome ps)"

text \<open>
  \<open>setTimeout\<close> converts its delay to a 32-bit integer: \<open>NaN\<close> and the infinities become 0, a
  fraction is cut off, the integer is taken modulo \<open>2^32\<close> into the signed range, and a
  negative delay counts as 0. The timer fires when that delay has passed, and the lag of
  the page.
\<close>

definition to_int32 :: "number \<Rightarrow> int" where
  "to_int32 x =
     (case x of
        Finite q \<Rightarrow>
          (let i = (if q < 0 then \<lceil>q\<rceil> else \<lfloor>q\<rfloor>); m = i mod 2 ^ 32
           in if m \<ge> 2 ^ 31 then m - 2 ^ 32 else m)
      | _ \<Rightarrow> 0)"

definition timer_delay :: "number \<Rightarrow> nat" where
  "timer_delay x = (if to_int32 x < 0 then 0 else nat (to_int32 x))"

definition default_timeout :: "number option \<Rightarrow> number" where
  \<comment> \<open>the parameter \<open>timeout = 2000\<close>: \<open>None\<close> is an argument left out\<close>
  "default_timeout timeout = (case timeout of None \<Rightarrow> Finite 2000 | Some x \<Rightarrow> x)"

definition timer :: "env \<Rightarrow> nat \<Rightarrow> number \<Rightarrow> jsval promise" where
  \<comment> \<open>\<^verbatim>\<open>new Promise(resolve => setTimeout(() => resolve(''), timeout))\<close> at time \<open>t0\<close>\<close>
  "timer e t0 timeout = [(t0 + timer_delay timeout + timer_lag e, Resolve (JStr []))]"

definition promise_all2 :: "jsval promise \<Rightarrow> jsval promise \<Rightarrow> (jsval \<times> jsval) promise" where
  \<comment> \<open>\<open>Promise.all\<close> of two promises: fulfilled when both are, rejected with the first
      rejection\<close>
  "promise_all2 p q =
     (case outcome p of
        None \<Rightarrow>
          (case outcome q of Some (t2, Reject e2) \<Rightarrow> [(t2, Reject e2)] | _ \<Rightarrow> [])
      | Some (t1, Resolve a) \<Rightarrow>
          (case outcome q of
             None \<Rightarrow> []
           | Some (t2, Resolve b) \<Rightarrow> [(max t1 t2, Resolve (a, b))]
           | Some (t2, Reject e2) \<Rightarrow> [(t2, Reject e2)])
      | Some (t1, Reject e1) \<Rightarrow>
          (case outcome q of
             Some (t2, Reject e2) \<Rightarrow> if t1 \<le> t2 then [(t1, Reject e1)] else [(t2, Reject e2)]
           | _ \<Rightarrow> [(t1, Reject e1)]))"

definition async_return :: "nat \<Rightarrow> error + jsstring \<Rightarrow> jsval promise" where
  \<comment> \<open>an \<open>async\<close> function ends at time \<open>t\<close>: \<open>return\<close> fulfils its promise, an exception
      rejects it\<close>
  "async_return t r = (case r of Inl err \<Rightarrow> [(t, Reject err)] | Inr v \<Rightarrow> [(t, Resolve (JStr v))])"

definition stamp :: "nat \<Rightarrow> effect list \<Rightarrow> (nat \<times> effect) list" where
  "stamp t fx = map (Pair t) fx"

section \<open>The live API\<close>

definition call_gtag :: "env \<Rightarrow> jsstring \<Rightarrow> jsstring \<Rightarrow> gtag_run" where
  \<comment> \<open>the call \<open>gtag('get', measurementId, property, callback)\<close>; it throws when \<open>gtag\<close> is
      not a function\<close>
  "call_gtag e measurementId property =
     (if gtag_is_function e then gtag_get e measurementId property
      else \<lparr>sync_calls = [], thrown = Some NotCallable, later_calls = []\<rparr>)"

definition or_empty :: "jsval \<Rightarrow> jsval" where
  \<comment> \<open>\<open>x || ''\<close>\<close>
  "or_empty x = (if truthy x then x else JStr [])"

definition getClientIdFromGtag ::
  "world \<Rightarrow> nat \<Rightarrow> jsstring \<Rightarrow> jsval promise \<times> (nat \<times> effect) list" where
  "getClientIdFromGtag w t0 measurementId =
     (let run = call_gtag (w t0) measurementId (js ''client_id'')
      in (map (\<lambda>cid. (t0, Resolve (or_empty cid))) (sync_calls run) @
          (case thrown run of None \<Rightarrow> [] | Some err \<Rightarrow> [(t0, Resolve (JStr []))]) @
          map (\<lambda>(d, cid). (t0 + d, Resolve (or_empty cid))) (sort_key fst (later_calls run)),
          (t0, CallGtag measurementId (js ''client_id'')) #
          (case thrown run of
             None \<Rightarrow> []
           | Some err \<Rightarrow> [(t0, Warn (js ''Error getting client_id from gtag:'') err)])))"

definition getSessionIdFromGtag ::
  "world \<Rightarrow> nat \<Rightarrow> jsstring \<Rightarrow> jsval promise \<times> (nat \<times> effect) list" where
  "getSessionIdFromGtag w t0 measurementId =
     (let run = call_gtag (w t0) measurementId (js ''session_id'')
      in (map (\<lambda>sid. (t0, Resolve (or_empty sid))) (sync_calls run) @
          (case thrown run of None \<Rightarrow> [] | Some err \<Rightarrow> [(t0, Resolve (JStr []))]) @
          map (\<lambda>(d, sid). (t0 + d, Resolve (or_empty sid))) (sort_key fst (later_calls run)),
          (t0, CallGtag measurementId (js ''session_id'')) #
          (case thrown run of
             None \<Rightarrow> []
           | Some err \<Rightarrow> [(t0, Warn (js ''Error getting session_id from gtag:'') err)])))"

section \<open>The resolvers\<close>

text \<open>
  An \<open>async\<close> function called at time \<open>t0\<close> runs up to its \<open>await\<close> at once; it goes on
  when the awaited promise settles, at that time and on the page as it is then, and never
  if the promise stays pending. Its result is the promise it returns, with the effects of
  the call and their times.
\<close>

definition getClientId ::
  "world \<Rightarrow> nat \<Rightarrow> jsstring \<Rightarrow> number option \<Rightarrow> jsval promise \<times> (nat \<times> effect) list"
  where
  "getClientId w t0 measurementId timeout =
     (let fallback = (\<lambda>t fx. case getClientIdFromCookie (w t) of
                                 (r, fxc) \<Rightarrow> (async_return t r, fx @ stamp t fxc))
      in case isGtagAvailable (w t0) measurementId of
           (available, fx0) \<Rightarrow>
             if truthy available then
               (case getClientIdFromGtag w t0 measurementId of
                  (p, fx1) \<Rightarrow>
                    (let ms = default_timeout timeout;
                         fx = stamp t0 fx0 @ fx1 @ [(t0, SetTimeout ms)]
                     in case outcome (race [p, timer (w t0) t0 ms]) of
                          None \<Rightarrow> ([], fx)
                        | Some (t, Resolve cid) \<Rightarrow>
                            if truthy cid then ([(t, Resolve cid)], fx) else fallback t fx
                        | Some (t, Reject err) \<Rightarrow>
                            fallback t
                              (fx @ [(t, Warn (js ''Native gtag client_id failed, falling back to cookie:'') err)])))
             else fallback t0 (stamp t0 fx0))"

definition getSessionId ::
  "world \<Rightarrow> nat \<Rightarrow> jsstring \<Rightarrow> number option \<Rightarrow> jsval promise \<times> (nat \<times> effect) list"
  where
  "getSessionId w t0 measurementId timeout =
     (let fallback = (\<lambda>t fx. case getSessionIdFromCookie (w t) measurementId of
                                 (r, fxc) \<Rightarrow> (async_return t r, fx @ stamp t fxc))
      in case isGtagAvailable (w t0) measurementId of
           (available, fx0) \<Rightarrow>
             if truthy available then
               (case getSessionIdFromGtag w t0 measurementId of
                  (p, fx1) \<Rightarrow>
                    (let ms = default_timeout timeout;
                         fx = stamp t0 fx0 @ fx1 @ [(t0, SetTimeout ms)]
                     in case outcome (race [p, timer (w t0) t0 ms]) of
                          None \<Rightarrow> ([], fx)
                        | Some (t, Resolve sid) \<Rightarrow>
                            if truthy sid then ([(t, Resolve sid)], fx) else fallback t fx
                        | Some (t, Reject err) \<Rightarrow>
                            fallback t
                              (fx @ [(t, Warn (js ''Native gtag session_id failed, falling back to cookie:'') err)])))
             else fallback t0 (stamp t0 fx0))"

section \<open>The combined accessors\<close>

record source_tags =
  of_clientId :: jsstring
  of_sessionId :: jsstring

record identifiers =
  clientId :: jsval
  sessionId :: jsval
  source :: source_tags

definition source_of :: "env \<Rightarrow> jsstring \<Rightarrow> jsval \<Rightarrow> jsstring \<times> effect list" where
  \<comment> \<open>\<^verbatim>\<open>id ? (isGtagAvailable(measurementId) ? 'gtag-api' : 'cookie') : 'not-found'\<close>\<close>
  "source_of e measurementId x =
     (if truthy x then
        (case isGtagAvailable e measurementId of
           (available, fx) \<Rightarrow> (if truthy available then js ''gtag-api'' else js ''cookie'', fx))
      else (js ''not-found'', []))"

definition getGA4Identifiers ::
  "world \<Rightarrow> nat \<Rightarrow> jsstring \<Rightarrow> number option \<Rightarrow>
   identifiers promise \<times> (nat \<times> effect) list" where
  "getGA4Identifiers w t0 measurementId timeout =
     (case getClientId w t0 measurementId (Some (default_timeout timeout)) of
        (pc, fxc) \<Rightarrow>
          (case getSessionId w t0 measurementId (Some (default_timeout timeout)) of
             (ps, fxs) \<Rightarrow>
               (let fx = sort_key fst (fxc @ fxs)
                in case settled (promise_all2 pc ps) of
                     None \<Rightarrow> ([], fx)
                   | Some (t, Reject err) \<Rightarrow> ([(t, Reject err)], fx)
                   | Some (t, Resolve (cid, sid)) \<Rightarrow>
                       (case source_of (w t) measurementId cid of
                          (tag_c, fx1) \<Rightarrow>
                            (case source_of (w t) measurementId sid of
                               (tag_s, fx2) \<Rightarrow>
                                 ([(t, Resolve
                                      \<lparr>clientId = cid, sessionId = sid,
                                       source = \<lparr>of_clientId = tag_c, of_sessionId = tag_s\<rparr>\<rparr>)],
                                  fx @ stamp t (fx1 @ fx2)))))))"

text \<open>
  The synchronous accessor runs in one turn, on the page as it is then. The object literal
  is evaluated field by field, and the first exception ends the call.
\<close>

definition getGA4IdentifiersSync ::
  "env \<Rightarrow> jsstring \<Rightarrow> (error + identifiers) \<times> effect list" where
  "getGA4IdentifiersSync e measurementId =
     (case getClientIdFromCookie e of
        (Inl err, fx1) \<Rightarrow> (Inl err, fx1)
      | (Inr c1, fx1) \<Rightarrow>
          (case getSessionIdFromCookie e measurementId of
             (Inl err, fx2) \<Rightarrow> (Inl err, fx1 @ fx2)
           | (Inr s1, fx2) \<Rightarrow>
               (case getClientIdFromCookie e of
                  (Inl err, fx3) \<Rightarrow> (Inl err, fx1 @ fx2 @ fx3)
                | (Inr c2, fx3) \<Rightarrow>
                    (case getSessionIdFromCookie e measurementId of
                       (Inl err, fx4) \<Rightarrow> (Inl err, fx1 @ fx2 @ fx3 @ fx4)
                     | (Inr s2, fx4) \<Rightarrow>
                         (Inr \<lparr>clientId = JStr c1, sessionId = JStr s1,
                               source =
                                 \<lparr>of_clientId = (if c2 \<noteq> [] then js ''cookie'' else js ''not-found''),
                                  of_sessionId = (if s2 \<noteq> [] then js ''cookie'' else js ''not-found'')\<rparr>\<rparr>,
                          fx1 @ fx2 @ fx3 @ fx4)))))"

section \<open>Pages for the examples\<close>

definition page :: "jsstring \<Rightarrow> env" where
  \<comment> \<open>a page with this cookie string on which \<open>gtag.js\<close> is not loaded\<close>
  "page c = \<lparr>cookie = c, cookie_error = None, pattern_error = (\<lambda>_. None), timer_lag = 0,
             gtag_is_function = False, gtm_defined = False,
             gtag_get = (\<lambda>_ _. \<lparr>sync_calls = [], thrown = None, later_calls = []\<rparr>)\<rparr>"

fun join :: "nat \<Rightarrow> jsstring list \<Rightarrow> jsstring" where
  \<comment> \<open>\<open>Array.prototype.join\<close> with a separator of one code unit\<close>
  "join sep [] = []"
| "join sep [f] = f"
| "join sep (f # g # fs) = f @ sep # join sep (g # fs)"

section \<open>The session cookie's name as the specification words it\<close>

definition strip_prefix :: "jsstring \<Rightarrow> jsstring \<Rightarrow> jsstring" where
  \<comment> \<open>a literal prefix is stripped, and nothing else is\<close>
  "strip_prefix p s = (if take (length p) s = p then drop (length p) s else s)"

section \<open>Pages with a live API, for the examples\<close>

definition answers :: "jsval \<Rightarrow> gtag_run" where
  \<comment> \<open>\<open>gtag\<close> calls back at once\<close>
  "answers x = \<lparr>sync_calls = [x], thrown = None, later_calls = []\<rparr>"

definition silent :: gtag_run where
  \<comment> \<open>\<open>gtag\<close> returns and never calls back\<close>
  "silent = \<lparr>sync_calls = [], thrown = None, later_calls = []\<rparr>"

definition throws :: "error \<Rightarrow> gtag_run" where
  "throws err = \<lparr>sync_calls = [], thrown = Some err, later_calls = []\<rparr>"

definition live_page :: "jsstring \<Rightarrow> (jsstring \<Rightarrow> gtag_run) \<Rightarrow> env" where
  \<comment> \<open>a page with this cookie string on which \<open>gtag.js\<close> is loaded; the second argument is
      what \<open>gtag('get', ...)\<close> does for a property\<close>
  "live_page c g = \<lparr>cookie = c, cookie_error = None, pattern_error = (\<lambda>_. None), timer_lag = 0,
                    gtag_is_function = True, gtm_defined = True,
                    gtag_get = (\<lambda>_ property. g property)\<rparr>"

definition example_live :: world where
  \<comment> \<open>a page without cookies on which \<open>gtag\<close> answers both properties at once\<close>
  "example_live = (\<lambda>t. live_page []
     (\<lambda>property. if property = js ''client_id'' then answers (JStr (js ''1234567890.1111111111''))
                 else answers (JStr (js ''9988''))))"

definition example_blocked :: world where
  \<comment> \<open>a page with the cookie \<open>_ga\<close> on which \<open>gtag\<close> is a function that never calls back\<close>
  "example_blocked = (\<lambda>t. live_page (js ''_ga=GA1.2.1234567890.1111111111'') (\<lambda>property. silent))"

definition example_cookies :: world where
  \<comment> \<open>a page with both cookies on which \<open>gtag.js\<close> is not loaded\<close>
  "example_cookies =
     (\<lambda>t. page (js ''_ga=GA1.2.1234567890.1111111111; _ga_ABCDEF1234=GS1.1.9988.5''))"

definition example_throwing :: world where
  \<comment> \<open>a page with the cookie \<open>_ga\<close> on which \<open>gtag\<close> throws\<close>
  "example_throwing =
     (\<lambda>t. live_page (js ''_ga=GA1.2.1234567890.1111111111'')
            (\<lambda>property. throws (Thrown (JStr (js ''blocked'')))))"

definition example_late :: world where
  \<comment> \<open>a page on which \<open>gtag\<close> calls back twice, after 30 and after 10 units of time\<close>
  "example_late =
     (\<lambda>t. live_page []
            (\<lambda>property. \<lparr>sync_calls = [], thrown = None,
                          later_calls = [(30, JStr (js ''late'')), (10, JUndefined)]\<rparr>))"

definition example_rejecting :: world where
  \<comment> \<open>a page with the cookie \<open>_ga\<close> on which \<open>gtag\<close> hands the callback a thenable that
      rejects after 5 units of time\<close>
  "example_rejecting =
     (\<lambda>t. live_page (js ''_ga=GA1.2.1234567890.1111111111'')
            (\<lambda>property. answers (JThenable (Rejects 5 (JStr (js ''no''))))))"

definition example_malformed :: world where
  \<comment> \<open>a page with the cookie string \<open>_ga=%\<close> on which \<open>gtag\<close> never calls back\<close>
  "example_malformed = (\<lambda>t. live_page (js ''_ga=%'') (\<lambda>property. silent))"

definition example_unreadable :: world where
  \<comment> \<open>a page with the cookie string \<open>_ga=%\<close> on which \<open>gtag.js\<close> is not loaded\<close>
  "example_unreadable = (\<lambda>t. page (js ''_ga=%''))"

section \<open>The contracts of the wrappers and of the resolvers\<close>

definition wrapper_contract ::
  "gtag_run \<Rightarrow> nat \<Rightarrow> jsstring \<Rightarrow> jsval promise \<times> (nat \<times> effect) list \<Rightarrow> bool" where
  \<comment> \<open>a wrapper called at time \<open>t0\<close>, where \<open>run\<close> is what the call of \<open>gtag\<close> does: the first
      value handed to the callback decides the promise, as itself or as the empty string
      when it is falsy; a value that is no thenable fulfils it; when the call throws, the
      wrapper warns and calls \<open>resolve('')\<close>, which decides the promise unless the callback
      ran before; the promise stays pending when nothing happens; it is rejected only when
      a thenable was handed over; and once settled it keeps its state\<close>
  "wrapper_contract run t0 message out \<longleftrightarrow>
     (\<forall>x xs. sync_calls run = x # xs \<longrightarrow>
        outcome (fst out) = follow t0 (if truthy x then x else JStr [])) \<and>
     (\<forall>x xs. sync_calls run = x # xs \<and> \<not> is_thenable x \<longrightarrow>
        outcome (fst out) = Some (t0, Resolve (if truthy x then x else JStr []))) \<and>
     (\<forall>err. thrown run = Some err \<longrightarrow>
        (t0, Resolve (JStr [])) \<in> set (fst out) \<and> (t0, Warn message err) \<in> set (snd out)) \<and>
     (\<forall>err. sync_calls run = [] \<and> thrown run = Some err \<longrightarrow>
        outcome (fst out) = Some (t0, Resolve (JStr []))) \<and>
     (\<forall>d x rest. sync_calls run = [] \<and> thrown run = None \<and>
        sort_key fst (later_calls run) = (d, x) # rest \<longrightarrow>
        outcome (fst out) = follow (t0 + d) (if truthy x then x else JStr [])) \<and>
     (sync_calls run = [] \<and> thrown run = None \<and> later_calls run = [] \<longrightarrow>
        outcome (fst out) = None) \<and>
     (\<forall>t err. outcome (fst out) = Some (t, Reject err) \<longrightarrow>
        list_ex is_thenable (sync_calls run @ map snd (later_calls run))) \<and>
     (\<forall>t t' a. state_at (fst out) t = Some a \<and> t \<le> t' \<longrightarrow> state_at (fst out) t' = Some a)"

definition resolver_algorithm ::
  "jsval \<Rightarrow> (nat \<times> jsval attempt) option \<Rightarrow> nat \<Rightarrow> (nat \<Rightarrow> error + jsstring) \<Rightarrow> jsstring \<Rightarrow>
   jsval promise \<times> (nat \<times> effect) list \<Rightarrow> bool" where
  \<comment> \<open>a resolver called at time \<open>t0\<close>, where \<open>available\<close> is the result of
      \<open>isGtagAvailable\<close> at that time, \<open>raced\<close> the outcome of the race, \<open>from_cookie t\<close> the
      result of the cookie accessor at time \<open>t\<close> and \<open>message\<close> the text of its warning\<close>
  "resolver_algorithm available raced t0 from_cookie message out \<longleftrightarrow>
     (\<not> truthy available \<longrightarrow>
        fst out = async_return t0 (from_cookie t0) \<and> list_all (\<lambda>x. is_read (snd x)) (snd out)) \<and>
     (\<forall>t x. truthy available \<and> raced = Some (t, Resolve x) \<and> truthy x \<longrightarrow>
        fst out = [(t, Resolve x)] \<and> list_all (\<lambda>x. snd x \<noteq> ReadCookie) (snd out)) \<and>
     (\<forall>t x. truthy available \<and> raced = Some (t, Resolve x) \<and> \<not> truthy x \<longrightarrow>
        fst out = async_return t (from_cookie t)) \<and>
     (\<forall>t err. truthy available \<and> raced = Some (t, Reject err) \<longrightarrow>
        fst out = async_return t (from_cookie t) \<and> (t, Warn message err) \<in> set (snd out))"

section \<open>Properties of the cookie reader\<close>

lemma js_Nil: "js [] = []"
  by (simp add: js_def)

lemma js_Cons: "js (c # s) = of_char c # js s"
  by (simp add: js_def)

lemmas cookie_eval = readCookie_def cookie_pattern_def group1_def literal_def
  plus_not_semicolon_def is_space_def js_Nil js_Cons upt_rec page_def

text \<open>What the pattern captures is never empty and holds no semicolon.\<close>

lemma plus_not_semicolon_text:
  "v \<in> set (plus_not_semicolon s) \<Longrightarrow> v \<noteq> [] \<and> 0x3B \<notin> set v"
proof -
  assume "v \<in> set (plus_not_semicolon s)"
  then obtain n where n: "1 \<le> n" "n \<le> length (takeWhile (\<lambda>c. c \<noteq> 0x3B) s)"
    and v: "v = take n (takeWhile (\<lambda>c. c \<noteq> 0x3B) s)"
    by (auto simp: plus_not_semicolon_def Let_def)
  from n v have "v \<noteq> []" by auto
  moreover have "0x3B \<notin> set v"
  proof
    assume "0x3B \<in> set v"
    with v have "0x3B \<in> set (takeWhile (\<lambda>c. c \<noteq> 0x3B) s)" by (auto dest: in_set_takeD)
    then show False by (auto dest: set_takeWhileD)
  qed
  ultimately show ?thesis by simp
qed

lemma cookie_pattern_text:
  "v \<in> set (cookie_pattern name b s) \<Longrightarrow> v \<noteq> [] \<and> 0x3B \<notin> set v"
  using plus_not_semicolon_text by (auto simp: cookie_pattern_def)

lemma regexp_exec_text: "regexp_exec name b s = Some v \<Longrightarrow> v \<noteq> [] \<and> 0x3B \<notin> set v"
proof (induction s arbitrary: b)
  case Nil
  then obtain vs where "cookie_pattern name b [] = v # vs" by (auto split: list.splits)
  then have "v \<in> set (cookie_pattern name b [])" by simp
  then show ?case by (rule cookie_pattern_text)
next
  case (Cons c cs)
  show ?case
  proof (cases "cookie_pattern name b (c # cs)")
    case Nil
    with Cons.prems have "regexp_exec name False cs = Some v" by simp
    then show ?thesis by (rule Cons.IH)
  next
    case (Cons x xs)
    with Cons.prems have "v = x" by simp
    with Cons have "v \<in> set (cookie_pattern name b (c # cs))" by simp
    then show ?thesis by (rule cookie_pattern_text)
  qed
qed

text \<open>\<open>decodeURIComponent\<close> throws nothing but \<open>URIError\<close>, and copies a text without \<^verbatim>\<open>%\<close>.\<close>

lemma decode_error: "decodeURIComponent s = Inl err \<Longrightarrow> err = URIError"
  by (induction s rule: decodeURIComponent.induct)
     (auto split: if_splits sum.splits option.splits prod.splits)

lemma decode_plain: "0x25 \<notin> set s \<Longrightarrow> decodeURIComponent s = Inr s"
  by (induction s) auto

text \<open>
  \<open>split\<close> and \<open>join\<close> are inverse to each other, and no field holds the separator: the
  fields of \<open>split\<close> are the texts between the separators.
\<close>

lemma split_not_Nil: "split sep s \<noteq> []"
  by (induction s) (auto split: list.splits)

lemma join_Cons: "join sep ((a # f) # fs) = a # join sep (f # fs)"
  by (cases fs) auto

lemma join_split: "join sep (split sep s) = s"
  by (induction s) (auto split: list.splits simp: split_not_Nil join_Cons)

lemma split_no_sep: "f \<in> set (split sep s) \<Longrightarrow> sep \<notin> set f"
  by (induction s arbitrary: f) (auto split: list.splits if_splits)

lemma split_plain: "sep \<notin> set f \<Longrightarrow> split sep f = [f]"
  by (induction f) auto

lemma split_append: "sep \<notin> set f \<Longrightarrow> split sep (f @ sep # r) = f # split sep r"
  by (induction f) auto

lemma split_join:
  "fs \<noteq> [] \<Longrightarrow> list_all (\<lambda>f. sep \<notin> set f) fs \<Longrightarrow> split sep (join sep fs) = fs"
  by (induction sep fs rule: join.induct) (auto simp: split_plain split_append)

lemma readCookie_effects: "snd (readCookie e name) = [ReadCookie]"
  by (simp add: readCookie_def split: option.splits)

lemma readCookie_fst:
  "cookie_error e = None \<Longrightarrow> pattern_error e name = None \<Longrightarrow>
     fst (readCookie e name) =
       (case regexp_exec name True (cookie e) of
          None \<Rightarrow> Inr []
        | Some raw \<Rightarrow> decodeURIComponent raw)"
  by (simp add: readCookie_def split: option.splits)

lemma getClientIdFromCookie_fst:
  "fst (getClientIdFromCookie e) =
     (case fst (readCookie e (js ''_ga'')) of
        Inl err \<Rightarrow> Inl err
      | Inr v \<Rightarrow> Inr (if length (split 0x2E v) \<ge> 4
                      then split 0x2E v ! 2 @ js ''.'' @ split 0x2E v ! 3 else []))"
  by (simp add: getClientIdFromCookie_def Let_def split: prod.splits sum.splits)

lemma getClientIdFromCookie_effects: "snd (getClientIdFromCookie e) = [ReadCookie]"
  using readCookie_effects [of e "js ''_ga''"]
  by (auto simp: getClientIdFromCookie_def Let_def split: prod.splits sum.splits)

text \<open>
  C6, as stated: on every cookie store the accessor returns the fields 2 and 3, or the empty
  string when the cookie has fewer than four fields. On the cookie strings \<open>_ga=%\<close> (one
  field) and \<open>_ga=a.b.c.%\<close> (four fields) it returns nothing: it throws \<open>URIError\<close>.
\<close>

theorem getClientIdFromCookie_malformed_counterexample:
  "fst (getClientIdFromCookie (page (js ''_ga=%''))) = Inl URIError \<and>
   fst (getClientIdFromCookie (page (js ''_ga=a.b.c.%''))) = Inl URIError"
  by (simp add: getClientIdFromCookie_fst cookie_eval)

text \<open>
  C6, amended. An exception of \<open>readCookie\<close> is passed on. On every cookie store that can be
  read (reading \<open>document.cookie\<close> does not throw and the engine accepts the pattern),
  \<open>getClientIdFromCookie\<close> returns the empty string when the cookie \<open>_ga\<close> is absent; when
  its raw text is well-formed percent-encoding it splits the decoded text at the dots and
  returns the fields 2 and 3 with a dot between them when there are four fields or more,
  and the empty string when there are fewer; and when its raw text is not well-formed
  percent-encoding it throws \<open>URIError\<close>. The cookie \<open>_ga=GA1.2.1234567890.1111111111\<close> gives
  \<open>1234567890.1111111111\<close>, and \<open>_ga=GA1.2\<close> gives the empty string.
\<close>

theorem getClientIdFromCookie_fields:
  "(\<forall>err. fst (readCookie e (js ''_ga'')) = Inl err \<longrightarrow> fst (getClientIdFromCookie e) = Inl err) \<and>
   (cookie_error e = None \<and> pattern_error e (js ''_ga'') = None \<longrightarrow>
      (regexp_exec (js ''_ga'') True (cookie e) = None \<longrightarrow>
         fst (getClientIdFromCookie e) = Inr []) \<and>
      (\<forall>raw v. regexp_exec (js ''_ga'') True (cookie e) = Some raw \<and>
         decodeURIComponent raw = Inr v \<longrightarrow>
         fst (getClientIdFromCookie e) =
           Inr (if length (split 0x2E v) \<ge> 4
                then split 0x2E v ! 2 @ js ''.'' @ split 0x2E v ! 3 else [])) \<and>
      (\<forall>raw fs. regexp_exec (js ''_ga'') True (cookie e) = Some raw \<and>
         decodeURIComponent raw = Inr (join 0x2E fs) \<and> fs \<noteq> [] \<and>
         list_all (\<lambda>f. 0x2E \<notin> set f) fs \<longrightarrow>
         fst (getClientIdFromCookie e) =
           Inr (if length fs \<ge> 4 then fs ! 2 @ js ''.'' @ fs ! 3 else [])) \<and>
      (\<forall>raw err. regexp_exec (js ''_ga'') True (cookie e) = Some raw \<and>
         decodeURIComponent raw = Inl err \<longrightarrow>
         fst (getClientIdFromCookie e) = Inl URIError) \<and>
      (cookie e = js ''_ga=GA1.2.1234567890.1111111111'' \<longrightarrow>
         fst (getClientIdFromCookie e) = Inr (js ''1234567890.1111111111'')) \<and>
      (cookie e = js ''_ga=GA1.2'' \<longrightarrow> fst (getClientIdFromCookie e) = Inr []))"
proof (intro conjI allI impI)
  fix err assume "fst (readCookie e (js ''_ga'')) = Inl err"
  then show "fst (getClientIdFromCookie e) = Inl err"
    by (simp add: getClientIdFromCookie_fst)
next
  assume h: "cookie_error e = None \<and> pattern_error e (js ''_ga'') = None"
    and "regexp_exec (js ''_ga'') True (cookie e) = None"
  then show "fst (getClientIdFromCookie e) = Inr []"
    by (simp add: getClientIdFromCookie_fst readCookie_fst)
next
  fix raw v
  assume h: "cookie_error e = None \<and> pattern_error e (js ''_ga'') = None"
    and "regexp_exec (js ''_ga'') True (cookie e) = Some raw \<and> decodeURIComponent raw = Inr v"
  then show "fst (getClientIdFromCookie e) =
      Inr (if length (split 0x2E v) \<ge> 4
           then split 0x2E v ! 2 @ js ''.'' @ split 0x2E v ! 3 else [])"
    by (simp add: getClientIdFromCookie_fst readCookie_fst)
next
  fix raw fs
  assume h: "cookie_error e = None \<and> pattern_error e (js ''_ga'') = None"
    and "regexp_exec (js ''_ga'') True (cookie e) = Some raw \<and>
         decodeURIComponent raw = Inr (join 0x2E fs) \<and> fs \<noteq> [] \<and>
         list_all (\<lambda>f. 0x2E \<notin> set f) fs"
  then show "fst (getClientIdFromCookie e) =
      Inr (if length fs \<ge> 4 then fs ! 2 @ js ''.'' @ fs ! 3 else [])"
    by (simp add: getClientIdFromCookie_fst readCookie_fst split_join)
next
  fix raw err
  assume h: "cookie_error e = None \<and> pattern_error e (js ''_ga'') = None"
    and r: "regexp_exec (js ''_ga'') True (cookie e) = Some raw \<and> decodeURIComponent raw = Inl err"
  then have "err = URIError" using decode_error by blast
  with h r show "fst (getClientIdFromCookie e) = Inl URIError"
    by (simp add: getClientIdFromCookie_fst readCookie_fst)
next
  assume h: "cookie_error e = None \<and> pattern_error e (js ''_ga'') = None"
    and "cookie e = js ''_ga=GA1.2.1234567890.1111111111''"
  then show "fst (getClientIdFromCookie e) = Inr (js ''1234567890.1111111111'')"
    by (simp add: getClientIdFromCookie_fst cookie_eval)
next
  assume h: "cookie_error e = None \<and> pattern_error e (js ''_ga'') = None"
    and "cookie e = js ''_ga=GA1.2''"
  then show "fst (getClientIdFromCookie e) = Inr []"
    by (simp add: getClientIdFromCookie_fst cookie_eval)
qed

lemma page_readable: "cookie_error (page c) = None \<and> pattern_error (page c) name = None"
  by (simp add: page_def)

theorem getClientIdFromCookie_fields_witness:
  "fst (getClientIdFromCookie (page (js ''_ga=GA1.2.1234567890.1111111111''))) =
     Inr (js ''1234567890.1111111111'') \<and>
   fst (getClientIdFromCookie (page (js ''_ga=GA1.2''))) = Inr [] \<and>
   regexp_exec (js ''_ga'') True (cookie (page (js ''lang=en''))) = None \<and>
   fst (getClientIdFromCookie (page (js ''lang=en''))) = Inr [] \<and>
   regexp_exec (js ''_ga'') True (cookie (page (js ''_ga=%''))) = Some (js ''%'') \<and>
   decodeURIComponent (js ''%'') = Inl URIError \<and>
   fst (getClientIdFromCookie (page (js ''_ga=%''))) = Inl URIError \<and>
   regexp_exec (js ''_ga'') True (cookie (page (js ''_ga=GA1.2.1234567890.1111111111; lang=en''))) =
     Some (js ''GA1.2.1234567890.1111111111'') \<and>
   decodeURIComponent (js ''GA1.2.1234567890.1111111111'') =
     Inr (join 0x2E [js ''GA1'', js ''2'', js ''1234567890'', js ''1111111111'']) \<and>
   fst (getClientIdFromCookie (page (js ''_ga=GA1.2.1234567890.1111111111; lang=en''))) =
     Inr (js ''1234567890.1111111111'') \<and>
   fst (readCookie (page (js ''_ga=GA1.2'')\<lparr>cookie_error := Some SecurityError\<rparr>) (js ''_ga'')) =
     Inl SecurityError \<and>
   fst (getClientIdFromCookie (page (js ''_ga=GA1.2'')\<lparr>cookie_error := Some SecurityError\<rparr>)) =
     Inl SecurityError"
proof -
  note ok = getClientIdFromCookie_fields [THEN conjunct2, THEN mp, OF page_readable]
  have 1: "fst (getClientIdFromCookie (page (js ''_ga=GA1.2.1234567890.1111111111''))) =
     Inr (js ''1234567890.1111111111'')"
    using ok [of "js ''_ga=GA1.2.1234567890.1111111111''", THEN conjunct2, THEN conjunct2,
        THEN conjunct2, THEN conjunct2, THEN conjunct1]
    by (simp add: page_def)
  have 2: "fst (getClientIdFromCookie (page (js ''_ga=GA1.2''))) = Inr []"
    using ok [of "js ''_ga=GA1.2''", THEN conjunct2, THEN conjunct2, THEN conjunct2,
        THEN conjunct2, THEN conjunct2]
    by (simp add: page_def)
  have a: "regexp_exec (js ''_ga'') True (cookie (page (js ''lang=en''))) = None"
    by (simp add: cookie_eval)
  from ok [of "js ''lang=en''", THEN conjunct1, THEN mp, OF a]
  have 3: "fst (getClientIdFromCookie (page (js ''lang=en''))) = Inr []" .
  have m: "regexp_exec (js ''_ga'') True (cookie (page (js ''_ga=%''))) = Some (js ''%'')"
    by (simp add: cookie_eval)
  have d: "decodeURIComponent (js ''%'') = Inl URIError"
    by (simp add: js_def)
  from ok [of "js ''_ga=%''", THEN conjunct2, THEN conjunct2, THEN conjunct2, THEN conjunct1,
      rule_format, of "js ''%''" URIError] m d
  have 4: "fst (getClientIdFromCookie (page (js ''_ga=%''))) = Inl URIError"
    by blast
  have r: "regexp_exec (js ''_ga'') True
      (cookie (page (js ''_ga=GA1.2.1234567890.1111111111; lang=en''))) =
      Some (js ''GA1.2.1234567890.1111111111'')"
    by (simp add: cookie_eval)
  have j: "decodeURIComponent (js ''GA1.2.1234567890.1111111111'') =
      Inr (join 0x2E [js ''GA1'', js ''2'', js ''1234567890'', js ''1111111111''])"
    by (simp add: js_def)
  have f: "[js ''GA1'', js ''2'', js ''1234567890'', js ''1111111111''] \<noteq> [] \<and>
      list_all (\<lambda>f. 0x2E \<notin> set f) [js ''GA1'', js ''2'', js ''1234567890'', js ''1111111111'']"
    by (simp add: js_def)
  from ok [of "js ''_ga=GA1.2.1234567890.1111111111; lang=en''", THEN conjunct2, THEN conjunct2,
      THEN conjunct1, rule_format, of "js ''GA1.2.1234567890.1111111111''"
        "[js ''GA1'', js ''2'', js ''1234567890'', js ''1111111111'']"] r j f
  have 5: "fst (getClientIdFromCookie (page (js ''_ga=GA1.2.1234567890.1111111111; lang=en''))) =
     Inr (js ''1234567890.1111111111'')"
    by (simp add: js_def)
  have s: "fst (readCookie (page (js ''_ga=GA1.2'')\<lparr>cookie_error := Some SecurityError\<rparr>)
      (js ''_ga'')) = Inl SecurityError"
    by (simp add: readCookie_def page_def)
  from getClientIdFromCookie_fields [THEN conjunct1, rule_format, OF s]
  have 6: "fst (getClientIdFromCookie (page (js ''_ga=GA1.2'')\<lparr>cookie_error := Some SecurityError\<rparr>)) =
     Inl SecurityError" .
  from 1 2 a 3 m d 4 r j 5 s 6 show ?thesis by blast
qed

text \<open>
  C7, as stated: \<open>readCookie\<close> never throws. It does: on a page whose cookie string is
  \<open>_ga=%\<close>, \<open>readCookie('_ga')\<close> throws \<open>URIError\<close>, since \<open>decodeURIComponent('%')\<close> does.
\<close>

theorem readCookie_malformed_counterexample:
  "fst (readCookie (page (js ''_ga=%'')) (js ''_ga'')) = Inl URIError"
  by (simp add: cookie_eval)

text \<open>
  C7, amended. For every name and every cookie store: an exception thrown by reading
  \<open>document.cookie\<close>, or by the engine when it builds the pattern for the name, is passed
  on. When neither throws, \<open>readCookie\<close> returns the empty string when the cookie is
  absent; when the cookie is present its result is that of \<open>decodeURIComponent\<close> on the raw
  text: the decoded text when the raw text is well-formed percent-encoding (the raw text
  itself when it holds no \<^verbatim>\<open>%\<close>), and the exception \<open>URIError\<close> when it is not.
\<close>

theorem readCookie_result:
  "(\<forall>err. cookie_error e = Some err \<longrightarrow> fst (readCookie e name) = Inl err) \<and>
   (\<forall>err. cookie_error e = None \<and> pattern_error e name = Some err \<longrightarrow>
      fst (readCookie e name) = Inl err) \<and>
   (cookie_error e = None \<and> pattern_error e name = None \<longrightarrow>
      (regexp_exec name True (cookie e) = None \<longrightarrow> fst (readCookie e name) = Inr []) \<and>
      (\<forall>raw. regexp_exec name True (cookie e) = Some raw \<longrightarrow>
         fst (readCookie e name) = decodeURIComponent raw \<and>
         (0x25 \<notin> set raw \<longrightarrow> fst (readCookie e name) = Inr raw) \<and>
         (\<forall>err. decodeURIComponent raw = Inl err \<longrightarrow>
            fst (readCookie e name) = Inl URIError \<and> 0x25 \<in> set raw)))"
proof (intro conjI allI impI)
  fix err assume "cookie_error e = Some err"
  then show "fst (readCookie e name) = Inl err" by (simp add: readCookie_def)
next
  fix err assume "cookie_error e = None \<and> pattern_error e name = Some err"
  then show "fst (readCookie e name) = Inl err" by (simp add: readCookie_def)
next
  assume "cookie_error e = None \<and> pattern_error e name = None"
    and "regexp_exec name True (cookie e) = None"
  then show "fst (readCookie e name) = Inr []" by (simp add: readCookie_fst)
next
  fix raw
  assume "cookie_error e = None \<and> pattern_error e name = None"
    and "regexp_exec name True (cookie e) = Some raw"
  then show "fst (readCookie e name) = decodeURIComponent raw" by (simp add: readCookie_fst)
next
  fix raw
  assume "cookie_error e = None \<and> pattern_error e name = None"
    and "regexp_exec name True (cookie e) = Some raw" and "0x25 \<notin> set raw"
  then show "fst (readCookie e name) = Inr raw" by (simp add: readCookie_fst decode_plain)
next
  fix raw err
  assume h: "cookie_error e = None \<and> pattern_error e name = None"
    and r: "regexp_exec name True (cookie e) = Some raw"
    and d: "decodeURIComponent raw = Inl err"
  from d have "err = URIError" by (rule decode_error)
  with h r d show "fst (readCookie e name) = Inl URIError" by (simp add: readCookie_fst)
next
  fix raw err
  assume "decodeURIComponent raw = Inl err"
  then show "0x25 \<in> set raw" using decode_plain [of raw] by auto
qed

theorem readCookie_result_witness:
  "regexp_exec (js ''_ga'') True (cookie (page (js ''lang=en''))) = None \<and>
   fst (readCookie (page (js ''lang=en'')) (js ''_ga'')) = Inr [] \<and>
   regexp_exec (js ''t'') True (cookie (page (js ''lang=en; t=a%20b''))) = Some (js ''a%20b'') \<and>
   fst (readCookie (page (js ''lang=en; t=a%20b'')) (js ''t'')) = Inr (js ''a b'') \<and>
   regexp_exec (js ''lang'') True (cookie (page (js ''lang=en; t=a%20b''))) = Some (js ''en'') \<and>
   fst (readCookie (page (js ''lang=en; t=a%20b'')) (js ''lang'')) = Inr (js ''en'') \<and>
   regexp_exec (js ''_ga'') True (cookie (page (js ''_ga=%''))) = Some (js ''%'') \<and>
   decodeURIComponent (js ''%'') = Inl URIError \<and>
   fst (readCookie (page (js ''_ga=%'')) (js ''_ga'')) = Inl URIError \<and>
   fst (readCookie (page (js ''lang=en'')\<lparr>cookie_error := Some SecurityError\<rparr>) (js ''lang'')) =
     Inl SecurityError \<and>
   fst (readCookie (page (js ''lang=en'')\<lparr>pattern_error := (\<lambda>n. Some SyntaxError)\<rparr>) (js ''lang'')) =
     Inl SyntaxError"
proof -
  note ok = readCookie_result [THEN conjunct2, THEN conjunct2, THEN mp, OF page_readable]
  have a: "regexp_exec (js ''_ga'') True (cookie (page (js ''lang=en''))) = None"
    by (simp add: cookie_eval)
  from ok [of "js ''_ga''" "js ''lang=en''", THEN conjunct1, THEN mp, OF a]
  have 1: "fst (readCookie (page (js ''lang=en'')) (js ''_ga'')) = Inr []" .
  have b: "regexp_exec (js ''t'') True (cookie (page (js ''lang=en; t=a%20b''))) = Some (js ''a%20b'')"
    by (simp add: cookie_eval)
  from ok [of "js ''t''" "js ''lang=en; t=a%20b''", THEN conjunct2, rule_format, OF b, THEN conjunct1]
  have "fst (readCookie (page (js ''lang=en; t=a%20b'')) (js ''t'')) =
      decodeURIComponent (js ''a%20b'')" .
  then have 2: "fst (readCookie (page (js ''lang=en; t=a%20b'')) (js ''t'')) = Inr (js ''a b'')"
    by (simp add: js_def hex_digit_def leading_ones_def)
  have c: "regexp_exec (js ''lang'') True (cookie (page (js ''lang=en; t=a%20b''))) = Some (js ''en'')"
    by (simp add: cookie_eval)
  have n: "0x25 \<notin> set (js ''en'')" by (simp add: js_def)
  from ok [of "js ''lang''" "js ''lang=en; t=a%20b''", THEN conjunct2, rule_format, OF c,
      THEN conjunct2, THEN conjunct1, THEN mp, OF n]
  have 3: "fst (readCookie (page (js ''lang=en; t=a%20b'')) (js ''lang'')) = Inr (js ''en'')" .
  have m: "regexp_exec (js ''_ga'') True (cookie (page (js ''_ga=%''))) = Some (js ''%'')"
    by (simp add: cookie_eval)
  have d: "decodeURIComponent (js ''%'') = Inl URIError"
    by (simp add: js_def)
  from ok [of "js ''_ga''" "js ''_ga=%''", THEN conjunct2, rule_format, OF m,
      THEN conjunct2, THEN conjunct2, rule_format, OF d, THEN conjunct1]
  have 4: "fst (readCookie (page (js ''_ga=%'')) (js ''_ga'')) = Inl URIError" .
  have s: "cookie_error (page (js ''lang=en'')\<lparr>cookie_error := Some SecurityError\<rparr>) =
      Some SecurityError"
    by simp
  from readCookie_result [THEN conjunct1, rule_format, OF s]
  have 5: "fst (readCookie (page (js ''lang=en'')\<lparr>cookie_error := Some SecurityError\<rparr>)
      (js ''lang'')) = Inl SecurityError" .
  have y: "cookie_error (page (js ''lang=en'')\<lparr>pattern_error := (\<lambda>n. Some SyntaxError)\<rparr>) = None \<and>
      pattern_error (page (js ''lang=en'')\<lparr>pattern_error := (\<lambda>n. Some SyntaxError)\<rparr>) (js ''lang'') =
        Some SyntaxError"
    by (simp add: page_def)
  from readCookie_result [THEN conjunct2, THEN conjunct1, rule_format, OF y]
  have 6: "fst (readCookie (page (js ''lang=en'')\<lparr>pattern_error := (\<lambda>n. Some SyntaxError)\<rparr>)
      (js ''lang'')) = Inl SyntaxError" .
  from a 1 b 2 c 3 m d 4 5 6 show ?thesis by blast
qed

section \<open>Properties of the session cookie accessor\<close>

text \<open>\<open>remove_first\<close> leaves a text without an occurrence of the pattern as it is.\<close>

lemma remove_first_absent:
  "\<forall>i<length s. take (length p) (drop i s) \<noteq> p \<Longrightarrow> remove_first p s = s"
proof (induction s)
  case Nil
  then show ?case by simp
next
  case (Cons x s)
  have "0 < length (x # s)" by simp
  with Cons.prems have "take (length p) (drop 0 (x # s)) \<noteq> p" by blast
  then have h: "take (length p) (x # s) \<noteq> p" by simp
  have "\<forall>i<length s. take (length p) (drop i s) \<noteq> p"
  proof (intro allI impI)
    fix i assume "i < length s"
    then have "Suc i < length (x # s)" by simp
    with Cons.prems have "take (length p) (drop (Suc i) (x # s)) \<noteq> p" by blast
    then show "take (length p) (drop i s) \<noteq> p" by simp
  qed
  with Cons.IH have "remove_first p s = s" by simp
  with h show ?case by simp
qed

lemma remove_first_prefix:
  assumes "take 2 mid = js ''G-'' \<or> (\<forall>i<length mid. take 2 (drop i mid) \<noteq> js ''G-'')"
  shows "remove_first (js ''G-'') mid = strip_prefix (js ''G-'') mid"
proof -
  have len: "length (js ''G-'') = 2" by (simp add: js_def)
  from assms show ?thesis
  proof
    assume p: "take 2 mid = js ''G-''"
    then have "mid \<noteq> []" by (auto simp: js_def)
    then obtain c cs where "mid = c # cs" by (cases mid) auto
    with p len show ?thesis by (simp add: strip_prefix_def)
  next
    assume a: "\<forall>i<length mid. take 2 (drop i mid) \<noteq> js ''G-''"
    then have "\<forall>i<length mid. take (length (js ''G-'')) (drop i mid) \<noteq> js ''G-''"
      unfolding len .
    then have r: "remove_first (js ''G-'') mid = mid" by (rule remove_first_absent)
    have "take 2 mid \<noteq> js ''G-''"
    proof (cases mid)
      case Nil
      then show ?thesis by (simp add: js_def)
    next
      case (Cons c cs)
      then have "0 < length mid" by simp
      with a have "take 2 (drop 0 mid) \<noteq> js ''G-''" by blast
      then show ?thesis by simp
    qed
    with r len show ?thesis by (simp add: strip_prefix_def)
  qed
qed

lemma getSessionIdFromCookie_fst:
  "fst (getSessionIdFromCookie e mid) =
     (case fst (readCookie e (js ''_ga_'' @ remove_first (js ''G-'') mid)) of
        Inl err \<Rightarrow> Inl err
      | Inr v \<Rightarrow> Inr (if length (split 0x2E v) \<ge> 3 then split 0x2E v ! 2 else []))"
  by (simp add: getSessionIdFromCookie_def Let_def split: prod.splits sum.splits)

lemma getSessionIdFromCookie_effects: "snd (getSessionIdFromCookie e mid) = [ReadCookie]"
  using readCookie_effects [of e "js ''_ga_'' @ remove_first (js ''G-'') mid"]
  by (auto simp: getSessionIdFromCookie_def Let_def split: prod.splits sum.splits)

text \<open>
  C5, as stated: for every measurement id the accessor returns the field 2, or the empty
  string. With the cookie string \<open>_ga_ABCDEF1234=%\<close> and the measurement id \<open>G-ABCDEF1234\<close>
  it returns nothing: it throws \<open>URIError\<close>.
\<close>

theorem getSessionIdFromCookie_malformed_counterexample:
  "fst (getSessionIdFromCookie (page (js ''_ga_ABCDEF1234=%'')) (js ''G-ABCDEF1234'')) =
     Inl URIError"
  by (simp add: getSessionIdFromCookie_fst cookie_eval)

text \<open>
  C5, amended. For every measurement id in which \<open>G-\<close> stands at the start only, or not at
  all, \<open>getSessionIdFromCookie\<close> reads the cookie named \<open>_ga_\<close> and the measurement id
  without its prefix \<open>G-\<close>, and an exception of \<open>readCookie\<close> is passed on. On every cookie
  store that can be read, it returns the empty string when that cookie is absent; when its
  raw text is well-formed percent-encoding it splits the decoded text at the dots and
  returns the field 2 when there are three fields or more, and the empty string when there
  are fewer; and when its raw text is not well-formed percent-encoding it throws
  \<open>URIError\<close>. The cookie \<open>_ga_ABCDEF1234=GS1.1.9988.5\<close> and the id \<open>G-ABCDEF1234\<close> give
  \<open>9988\<close>.
\<close>

theorem getSessionIdFromCookie_fields:
  "take 2 mid = js ''G-'' \<or> (\<forall>i<length mid. take 2 (drop i mid) \<noteq> js ''G-'') \<Longrightarrow>
   (\<forall>err. fst (readCookie e (js ''_ga_'' @ strip_prefix (js ''G-'') mid)) = Inl err \<longrightarrow>
      fst (getSessionIdFromCookie e mid) = Inl err) \<and>
   (cookie_error e = None \<and>
    pattern_error e (js ''_ga_'' @ strip_prefix (js ''G-'') mid) = None \<longrightarrow>
      (regexp_exec (js ''_ga_'' @ strip_prefix (js ''G-'') mid) True (cookie e) = None \<longrightarrow>
         fst (getSessionIdFromCookie e mid) = Inr []) \<and>
      (\<forall>raw v. regexp_exec (js ''_ga_'' @ strip_prefix (js ''G-'') mid) True (cookie e) = Some raw \<and>
         decodeURIComponent raw = Inr v \<longrightarrow>
         fst (getSessionIdFromCookie e mid) =
           Inr (if length (split 0x2E v) \<ge> 3 then split 0x2E v ! 2 else [])) \<and>
      (\<forall>raw fs. regexp_exec (js ''_ga_'' @ strip_prefix (js ''G-'') mid) True (cookie e) = Some raw \<and>
         decodeURIComponent raw = Inr (join 0x2E fs) \<and> fs \<noteq> [] \<and>
         list_all (\<lambda>f. 0x2E \<notin> set f) fs \<longrightarrow>
         fst (getSessionIdFromCookie e mid) = Inr (if length fs \<ge> 3 then fs ! 2 else [])) \<and>
      (\<forall>raw err. regexp_exec (js ''_ga_'' @ strip_prefix (js ''G-'') mid) True (cookie e) = Some raw \<and>
         decodeURIComponent raw = Inl err \<longrightarrow>
         fst (getSessionIdFromCookie e mid) = Inl URIError) \<and>
      (cookie e = js ''_ga_ABCDEF1234=GS1.1.9988.5'' \<and> mid = js ''G-ABCDEF1234'' \<longrightarrow>
         fst (getSessionIdFromCookie e mid) = Inr (js ''9988'')))"
proof -
  assume "take 2 mid = js ''G-'' \<or> (\<forall>i<length mid. take 2 (drop i mid) \<noteq> js ''G-'')"
  then have n: "remove_first (js ''G-'') mid = strip_prefix (js ''G-'') mid"
    by (rule remove_first_prefix)
  let ?name = "js ''_ga_'' @ strip_prefix (js ''G-'') mid"
  have fst_eq: "fst (getSessionIdFromCookie e mid) =
     (case fst (readCookie e ?name) of
        Inl err \<Rightarrow> Inl err
      | Inr v \<Rightarrow> Inr (if length (split 0x2E v) \<ge> 3 then split 0x2E v ! 2 else []))"
    using getSessionIdFromCookie_fst [of e mid] unfolding n .
  show ?thesis
  proof (intro conjI allI impI)
    fix err assume "fst (readCookie e ?name) = Inl err"
    then show "fst (getSessionIdFromCookie e mid) = Inl err" by (simp add: fst_eq)
  next
    assume "cookie_error e = None \<and> pattern_error e ?name = None"
      and "regexp_exec ?name True (cookie e) = None"
    then show "fst (getSessionIdFromCookie e mid) = Inr []"
      by (simp add: fst_eq readCookie_fst)
  next
    fix raw v
    assume "cookie_error e = None \<and> pattern_error e ?name = None"
      and "regexp_exec ?name True (cookie e) = Some raw \<and> decodeURIComponent raw = Inr v"
    then show "fst (getSessionIdFromCookie e mid) =
        Inr (if length (split 0x2E v) \<ge> 3 then split 0x2E v ! 2 else [])"
      by (simp add: fst_eq readCookie_fst)
  next
    fix raw fs
    assume "cookie_error e = None \<and> pattern_error e ?name = None"
      and "regexp_exec ?name True (cookie e) = Some raw \<and>
           decodeURIComponent raw = Inr (join 0x2E fs) \<and> fs \<noteq> [] \<and>
           list_all (\<lambda>f. 0x2E \<notin> set f) fs"
    then show "fst (getSessionIdFromCookie e mid) = Inr (if length fs \<ge> 3 then fs ! 2 else [])"
      by (simp add: fst_eq readCookie_fst split_join)
  next
    fix raw err
    assume h: "cookie_error e = None \<and> pattern_error e ?name = None"
      and r: "regexp_exec ?name True (cookie e) = Some raw \<and> decodeURIComponent raw = Inl err"
    then have "err = URIError" using decode_error by blast
    with h r show "fst (getSessionIdFromCookie e mid) = Inl URIError"
      by (simp add: fst_eq readCookie_fst)
  next
    assume h: "cookie_error e = None \<and> pattern_error e ?name = None"
      and c: "cookie e = js ''_ga_ABCDEF1234=GS1.1.9988.5'' \<and> mid = js ''G-ABCDEF1234''"
    then have "pattern_error e (js ''_ga_ABCDEF1234'') = None"
      by (simp add: strip_prefix_def js_def)
    with h c show "fst (getSessionIdFromCookie e mid) = Inr (js ''9988'')"
      by (simp add: getSessionIdFromCookie_fst readCookie_def cookie_pattern_def group1_def
          literal_def plus_not_semicolon_def is_space_def js_Nil js_Cons upt_rec)
  qed
qed

theorem getSessionIdFromCookie_fields_witness:
  "fst (getSessionIdFromCookie (page (js ''_ga_ABCDEF1234=GS1.1.9988.5'')) (js ''G-ABCDEF1234'')) =
     Inr (js ''9988'') \<and>
   js ''_ga_'' @ strip_prefix (js ''G-'') (js ''G-ABCDEF1234'') = js ''_ga_ABCDEF1234'' \<and>
   regexp_exec (js ''_ga_ABCDEF1234'') True (cookie (page (js ''lang=en; _ga_ABCDEF1234=GS1.1''))) =
     Some (js ''GS1.1'') \<and>
   decodeURIComponent (js ''GS1.1'') = Inr (join 0x2E [js ''GS1'', js ''1'']) \<and>
   fst (getSessionIdFromCookie (page (js ''lang=en; _ga_ABCDEF1234=GS1.1'')) (js ''G-ABCDEF1234'')) =
     Inr [] \<and>
   regexp_exec (js ''_ga_ABCDEF1234'') True (cookie (page (js ''lang=en''))) = None \<and>
   fst (getSessionIdFromCookie (page (js ''lang=en'')) (js ''G-ABCDEF1234'')) = Inr [] \<and>
   regexp_exec (js ''_ga_ABCDEF1234'') True (cookie (page (js ''_ga_ABCDEF1234=%''))) =
     Some (js ''%'') \<and>
   fst (getSessionIdFromCookie (page (js ''_ga_ABCDEF1234=%'')) (js ''G-ABCDEF1234'')) =
     Inl URIError \<and>
   js ''_ga_'' @ strip_prefix (js ''G-'') (js ''UA-1'') = js ''_ga_UA-1'' \<and>
   regexp_exec (js ''_ga_UA-1'') True (cookie (page (js ''_ga_UA-1=GS1.1.77''))) =
     Some (js ''GS1.1.77'') \<and>
   fst (getSessionIdFromCookie (page (js ''_ga_UA-1=GS1.1.77'')) (js ''UA-1'')) = Inr (js ''77'') \<and>
   fst (getSessionIdFromCookie (page (js ''lang=en'')\<lparr>cookie_error := Some SecurityError\<rparr>)
      (js ''G-ABCDEF1234'')) = Inl SecurityError"
proof -
  let ?mid = "js ''G-ABCDEF1234''"
  have h: "take 2 ?mid = js ''G-'' \<or> (\<forall>i<length ?mid. take 2 (drop i ?mid) \<noteq> js ''G-'')"
    by (simp add: js_def)
  have nm: "js ''_ga_'' @ strip_prefix (js ''G-'') ?mid = js ''_ga_ABCDEF1234''"
    by (simp add: strip_prefix_def js_def)
  note ok = getSessionIdFromCookie_fields [OF h, THEN conjunct2, THEN mp, OF page_readable,
      unfolded nm]
  have 1: "fst (getSessionIdFromCookie (page (js ''_ga_ABCDEF1234=GS1.1.9988.5'')) ?mid) =
     Inr (js ''9988'')"
    using ok [of "js ''_ga_ABCDEF1234=GS1.1.9988.5''", THEN conjunct2, THEN conjunct2,
        THEN conjunct2, THEN conjunct2]
    by (simp add: page_def)
  have r2: "regexp_exec (js ''_ga_ABCDEF1234'') True
      (cookie (page (js ''lang=en; _ga_ABCDEF1234=GS1.1''))) = Some (js ''GS1.1'')"
    by (simp add: cookie_eval)
  have j2: "decodeURIComponent (js ''GS1.1'') = Inr (join 0x2E [js ''GS1'', js ''1''])"
    by (simp add: js_def)
  have f2: "[js ''GS1'', js ''1''] \<noteq> [] \<and> list_all (\<lambda>f. 0x2E \<notin> set f) [js ''GS1'', js ''1'']"
    by (simp add: js_def)
  from ok [of "js ''lang=en; _ga_ABCDEF1234=GS1.1''", THEN conjunct2, THEN conjunct2,
      THEN conjunct1, rule_format, of "js ''GS1.1''" "[js ''GS1'', js ''1'']"] r2 j2 f2
  have 2: "fst (getSessionIdFromCookie (page (js ''lang=en; _ga_ABCDEF1234=GS1.1'')) ?mid) = Inr []"
    by simp
  have a: "regexp_exec (js ''_ga_ABCDEF1234'') True (cookie (page (js ''lang=en''))) = None"
    by (simp add: cookie_eval)
  from ok [of "js ''lang=en''", THEN conjunct1, THEN mp, OF a]
  have 3: "fst (getSessionIdFromCookie (page (js ''lang=en'')) ?mid) = Inr []" .
  have m: "regexp_exec (js ''_ga_ABCDEF1234'') True (cookie (page (js ''_ga_ABCDEF1234=%''))) =
      Some (js ''%'')"
    by (simp add: cookie_eval)
  have d: "decodeURIComponent (js ''%'') = Inl URIError"
    by (simp add: js_def)
  from ok [of "js ''_ga_ABCDEF1234=%''", THEN conjunct2, THEN conjunct2, THEN conjunct2,
      THEN conjunct1, rule_format, of "js ''%''" URIError] m d
  have 4: "fst (getSessionIdFromCookie (page (js ''_ga_ABCDEF1234=%'')) ?mid) = Inl URIError"
    by blast
  have h5: "take 2 (js ''UA-1'') = js ''G-'' \<or>
      (\<forall>i<length (js ''UA-1''). take 2 (drop i (js ''UA-1'')) \<noteq> js ''G-'')"
    by (simp add: js_def All_less_Suc numeral_eq_Suc)
  have nm5: "js ''_ga_'' @ strip_prefix (js ''G-'') (js ''UA-1'') = js ''_ga_UA-1''"
    by (simp add: strip_prefix_def js_def)
  have r5: "regexp_exec (js ''_ga_UA-1'') True (cookie (page (js ''_ga_UA-1=GS1.1.77''))) =
      Some (js ''GS1.1.77'')"
    by (simp add: cookie_eval)
  have d5: "decodeURIComponent (js ''GS1.1.77'') = Inr (js ''GS1.1.77'')"
    by (simp add: js_def)
  from getSessionIdFromCookie_fields [OF h5, THEN conjunct2, THEN mp, OF page_readable,
      unfolded nm5, of "js ''_ga_UA-1=GS1.1.77''", THEN conjunct2, THEN conjunct1, rule_format,
      of "js ''GS1.1.77''" "js ''GS1.1.77''"] r5 d5
  have 5: "fst (getSessionIdFromCookie (page (js ''_ga_UA-1=GS1.1.77'')) (js ''UA-1'')) =
      Inr (js ''77'')"
    by (simp add: js_def)
  have s: "fst (readCookie (page (js ''lang=en'')\<lparr>cookie_error := Some SecurityError\<rparr>)
      (js ''_ga_'' @ strip_prefix (js ''G-'') ?mid)) = Inl SecurityError"
    by (simp add: readCookie_def page_def)
  from getSessionIdFromCookie_fields [OF h, THEN conjunct1, rule_format, OF s]
  have 6: "fst (getSessionIdFromCookie (page (js ''lang=en'')\<lparr>cookie_error := Some SecurityError\<rparr>)
      ?mid) = Inl SecurityError" .
  from 1 nm r2 j2 2 a 3 m 4 nm5 r5 5 6 show ?thesis by blast
qed

section \<open>Properties of the availability check\<close>

text \<open>
  C8. For every measurement id and every page, \<open>isGtagAvailable\<close> returns \<open>false\<close> when
  \<open>window.gtag\<close> is not a function; its result is truthy exactly when \<open>window.gtag\<close> is a
  function, \<open>window.google_tag_manager\<close> is defined and the measurement id is truthy (the
  result is then the measurement id itself); and all it does is read the page.
\<close>

theorem isGtagAvailable_spec:
  "(\<not> gtag_is_function e \<longrightarrow> fst (isGtagAvailable e mid) = JBool False) \<and>
   (truthy (fst (isGtagAvailable e mid)) \<longleftrightarrow> gtag_is_function e \<and> gtm_defined e \<and> mid \<noteq> []) \<and>
   (gtag_is_function e \<and> gtm_defined e \<longrightarrow> fst (isGtagAvailable e mid) = JStr mid) \<and>
   list_all is_read (snd (isGtagAvailable e mid))"
  by (simp add: isGtagAvailable_def)

theorem isGtagAvailable_spec_witness:
  "fst (isGtagAvailable (page []) (js ''G-ABCDEF1234'')) = JBool False \<and>
   fst (isGtagAvailable (page []\<lparr>gtm_defined := True\<rparr>) (js ''G-ABCDEF1234'')) = JBool False \<and>
   truthy (fst (isGtagAvailable (page []\<lparr>gtag_is_function := True, gtm_defined := True\<rparr>) (js ''G-ABCDEF1234''))) \<and>
   fst (isGtagAvailable (page []\<lparr>gtag_is_function := True, gtm_defined := True\<rparr>) []) = JStr [] \<and>
   \<not> truthy (fst (isGtagAvailable (page []\<lparr>gtag_is_function := True, gtm_defined := True\<rparr>) []))"
  using isGtagAvailable_spec [of "page []" "js ''G-ABCDEF1234''"]
    isGtagAvailable_spec [of "page []\<lparr>gtm_defined := True\<rparr>" "js ''G-ABCDEF1234''"]
    isGtagAvailable_spec [of "page []\<lparr>gtag_is_function := True, gtm_defined := True\<rparr>" "js ''G-ABCDEF1234''"]
    isGtagAvailable_spec [of "page []\<lparr>gtag_is_function := True, gtm_defined := True\<rparr>" "[]"]
  by (simp add: page_def js_Nil js_Cons)

section \<open>Properties of the synchronous accessor\<close>

lemma readCookie_cookie_only:
  "cookie e' = cookie e \<and> cookie_error e' = cookie_error e \<and> pattern_error e' = pattern_error e \<Longrightarrow>
     readCookie e' name = readCookie e name"
proof -
  assume a: "cookie e' = cookie e \<and> cookie_error e' = cookie_error e \<and>
      pattern_error e' = pattern_error e"
  then have 1: "cookie e' = cookie e" and 2: "cookie_error e' = cookie_error e"
    and 3: "pattern_error e' = pattern_error e" by blast+
  show ?thesis unfolding readCookie_def 1 2 3 ..
qed

lemma getClientIdFromCookie_cookie_only:
  "cookie e' = cookie e \<and> cookie_error e' = cookie_error e \<and> pattern_error e' = pattern_error e \<Longrightarrow>
     getClientIdFromCookie e' = getClientIdFromCookie e"
proof -
  assume a: "cookie e' = cookie e \<and> cookie_error e' = cookie_error e \<and>
      pattern_error e' = pattern_error e"
  have r: "readCookie e' (js ''_ga'') = readCookie e (js ''_ga'')"
    using a by (rule readCookie_cookie_only)
  show ?thesis unfolding getClientIdFromCookie_def r ..
qed

lemma getSessionIdFromCookie_cookie_only:
  "cookie e' = cookie e \<and> cookie_error e' = cookie_error e \<and> pattern_error e' = pattern_error e \<Longrightarrow>
     getSessionIdFromCookie e' mid = getSessionIdFromCookie e mid"
proof -
  assume a: "cookie e' = cookie e \<and> cookie_error e' = cookie_error e \<and>
      pattern_error e' = pattern_error e"
  have r: "\<And>name. readCookie e' name = readCookie e name"
    using a by (rule readCookie_cookie_only)
  show ?thesis unfolding getSessionIdFromCookie_def r ..
qed

lemma getGA4IdentifiersSync_fst:
  "fst (getGA4IdentifiersSync e mid) =
     (case fst (getClientIdFromCookie e) of
        Inl err \<Rightarrow> Inl err
      | Inr c \<Rightarrow>
          (case fst (getSessionIdFromCookie e mid) of
             Inl err \<Rightarrow> Inl err
           | Inr s \<Rightarrow>
               Inr \<lparr>clientId = JStr c, sessionId = JStr s,
                    source = \<lparr>of_clientId = (if c \<noteq> [] then js ''cookie'' else js ''not-found''),
                              of_sessionId = (if s \<noteq> [] then js ''cookie'' else js ''not-found'')\<rparr>\<rparr>))"
  by (simp add: getGA4IdentifiersSync_def split: prod.splits sum.splits)

lemma getGA4IdentifiersSync_effects:
  "list_all (\<lambda>x. x = ReadCookie) (snd (getGA4IdentifiersSync e mid))"
  using getClientIdFromCookie_effects [of e] getSessionIdFromCookie_effects [of e mid]
  by (auto simp: getGA4IdentifiersSync_def split: prod.splits sum.splits)

text \<open>
  C9, as stated: for every measurement id the accessor returns the two cookie accessors'
  values. With the cookie string \<open>_ga=1.2.3.4; _ga_X=%\<close> and the measurement id \<open>G-X\<close> it
  returns nothing: the session accessor throws \<open>URIError\<close>, and so does
  \<open>getGA4IdentifiersSync\<close>.
\<close>

theorem getGA4IdentifiersSync_malformed_counterexample:
  "fst (getGA4IdentifiersSync (page (js ''_ga=1.2.3.4; _ga_X=%'')) (js ''G-X'')) = Inl URIError"
  by (simp add: getGA4IdentifiersSync_fst getClientIdFromCookie_fst getSessionIdFromCookie_fst
      cookie_eval)

text \<open>
  C9, amended. For every measurement id, \<open>getGA4IdentifiersSync\<close> ends in the turn in which
  it is called: when both cookie accessors return, it returns their values, each with the
  source \<open>cookie\<close> when it is not empty and \<open>not-found\<close> when it is; when an accessor throws,
  its exception is passed on to the caller. All it does is read \<open>document.cookie\<close>: it
  neither looks at \<open>gtag\<close> nor calls it, it sets no timer, and on two pages with the same
  cookie store it ends the same way.
\<close>

theorem getGA4IdentifiersSync_cookie_only:
  "fst (getGA4IdentifiersSync e mid) =
     (case fst (getClientIdFromCookie e) of
        Inl err \<Rightarrow> Inl err
      | Inr c \<Rightarrow>
          (case fst (getSessionIdFromCookie e mid) of
             Inl err \<Rightarrow> Inl err
           | Inr s \<Rightarrow>
               Inr \<lparr>clientId = JStr c, sessionId = JStr s,
                    source = \<lparr>of_clientId = (if c \<noteq> [] then js ''cookie'' else js ''not-found''),
                              of_sessionId = (if s \<noteq> [] then js ''cookie'' else js ''not-found'')\<rparr>\<rparr>)) \<and>
   list_all (\<lambda>x. x = ReadCookie) (snd (getGA4IdentifiersSync e mid)) \<and>
   (\<forall>e'. cookie e' = cookie e \<and> cookie_error e' = cookie_error e \<and>
         pattern_error e' = pattern_error e \<longrightarrow>
      getGA4IdentifiersSync e' mid = getGA4IdentifiersSync e mid)"
proof (intro conjI allI impI)
  show "fst (getGA4IdentifiersSync e mid) =
     (case fst (getClientIdFromCookie e) of
        Inl err \<Rightarrow> Inl err
      | Inr c \<Rightarrow>
          (case fst (getSessionIdFromCookie e mid) of
             Inl err \<Rightarrow> Inl err
           | Inr s \<Rightarrow>
               Inr \<lparr>clientId = JStr c, sessionId = JStr s,
                    source = \<lparr>of_clientId = (if c \<noteq> [] then js ''cookie'' else js ''not-found''),
                              of_sessionId = (if s \<noteq> [] then js ''cookie'' else js ''not-found'')\<rparr>\<rparr>))"
    by (rule getGA4IdentifiersSync_fst)
next
  show "list_all (\<lambda>x. x = ReadCookie) (snd (getGA4IdentifiersSync e mid))"
    by (rule getGA4IdentifiersSync_effects)
next
  fix e' :: env
  assume a: "cookie e' = cookie e \<and> cookie_error e' = cookie_error e \<and>
         pattern_error e' = pattern_error e"
  have c: "getClientIdFromCookie e' = getClientIdFromCookie e"
    using a by (rule getClientIdFromCookie_cookie_only)
  have s: "getSessionIdFromCookie e' mid = getSessionIdFromCookie e mid"
    using a by (rule getSessionIdFromCookie_cookie_only)
  show "getGA4IdentifiersSync e' mid = getGA4IdentifiersSync e mid"
    unfolding getGA4IdentifiersSync_def c s ..
qed

theorem getGA4IdentifiersSync_cookie_only_witness:
  "fst (getGA4IdentifiersSync
          (page (js ''_ga=GA1.2.1234567890.1111111111; _ga_ABCDEF1234=GS1.1.9988.5''))
          (js ''G-ABCDEF1234'')) =
     Inr \<lparr>clientId = JStr (js ''1234567890.1111111111''), sessionId = JStr (js ''9988''),
          source = \<lparr>of_clientId = js ''cookie'', of_sessionId = js ''cookie''\<rparr>\<rparr> \<and>
   fst (getGA4IdentifiersSync (page (js ''_ga=1.2.3.4; _ga_X=%'')) (js ''G-X'')) = Inl URIError \<and>
   getGA4IdentifiersSync
     (page (js ''_ga=GA1.2.1234567890.1111111111'')\<lparr>gtag_is_function := True, gtm_defined := True\<rparr>)
     (js ''G-ABCDEF1234'') =
   getGA4IdentifiersSync (page (js ''_ga=GA1.2.1234567890.1111111111'')) (js ''G-ABCDEF1234'')"
proof (intro conjI)
  have c: "fst (getClientIdFromCookie
      (page (js ''_ga=GA1.2.1234567890.1111111111; _ga_ABCDEF1234=GS1.1.9988.5''))) =
      Inr (js ''1234567890.1111111111'')"
    by (simp add: getClientIdFromCookie_fst cookie_eval)
  have s: "fst (getSessionIdFromCookie
      (page (js ''_ga=GA1.2.1234567890.1111111111; _ga_ABCDEF1234=GS1.1.9988.5''))
      (js ''G-ABCDEF1234'')) = Inr (js ''9988'')"
    by (simp add: getSessionIdFromCookie_fst cookie_eval)
  show "fst (getGA4IdentifiersSync
          (page (js ''_ga=GA1.2.1234567890.1111111111; _ga_ABCDEF1234=GS1.1.9988.5''))
          (js ''G-ABCDEF1234'')) =
     Inr \<lparr>clientId = JStr (js ''1234567890.1111111111''), sessionId = JStr (js ''9988''),
          source = \<lparr>of_clientId = js ''cookie'', of_sessionId = js ''cookie''\<rparr>\<rparr>"
    unfolding getGA4IdentifiersSync_cookie_only [THEN conjunct1] c s by (simp add: js_def)
next
  have c: "fst (getClientIdFromCookie (page (js ''_ga=1.2.3.4; _ga_X=%''))) = Inr (js ''3.4'')"
    by (simp add: getClientIdFromCookie_fst cookie_eval)
  have s: "fst (getSessionIdFromCookie (page (js ''_ga=1.2.3.4; _ga_X=%'')) (js ''G-X'')) =
      Inl URIError"
    by (simp add: getSessionIdFromCookie_fst cookie_eval)
  show "fst (getGA4IdentifiersSync (page (js ''_ga=1.2.3.4; _ga_X=%'')) (js ''G-X'')) = Inl URIError"
    unfolding getGA4IdentifiersSync_cookie_only [THEN conjunct1] c s by simp
next
  have k: "cookie (page (js ''_ga=GA1.2.1234567890.1111111111'')\<lparr>gtag_is_function := True, gtm_defined := True\<rparr>) =
       cookie (page (js ''_ga=GA1.2.1234567890.1111111111'')) \<and>
     cookie_error (page (js ''_ga=GA1.2.1234567890.1111111111'')\<lparr>gtag_is_function := True, gtm_defined := True\<rparr>) =
       cookie_error (page (js ''_ga=GA1.2.1234567890.1111111111'')) \<and>
     pattern_error (page (js ''_ga=GA1.2.1234567890.1111111111'')\<lparr>gtag_is_function := True, gtm_defined := True\<rparr>) =
       pattern_error (page (js ''_ga=GA1.2.1234567890.1111111111''))"
    by (simp add: page_def)
  from getGA4IdentifiersSync_cookie_only [THEN conjunct2, THEN conjunct2, rule_format, OF k]
  show "getGA4IdentifiersSync
     (page (js ''_ga=GA1.2.1234567890.1111111111'')\<lparr>gtag_is_function := True, gtm_defined := True\<rparr>)
     (js ''G-ABCDEF1234'') =
   getGA4IdentifiersSync (page (js ''_ga=GA1.2.1234567890.1111111111'')) (js ''G-ABCDEF1234'')" .
qed

text \<open>
  C10. On every page and for every measurement id, what \<open>getGA4IdentifiersSync\<close> returns is
  consistent, though it reads each cookie twice: the client id is not empty exactly when its
  source is \<open>cookie\<close> and empty exactly when its source is \<open>not-found\<close>, and so for the
  session id.
\<close>

theorem getGA4IdentifiersSync_consistent:
  "fst (getGA4IdentifiersSync e mid) = Inr r \<Longrightarrow>
     (clientId r \<noteq> JStr [] \<longleftrightarrow> of_clientId (source r) = js ''cookie'') \<and>
     (clientId r = JStr [] \<longleftrightarrow> of_clientId (source r) = js ''not-found'') \<and>
     (sessionId r \<noteq> JStr [] \<longleftrightarrow> of_sessionId (source r) = js ''cookie'') \<and>
     (sessionId r = JStr [] \<longleftrightarrow> of_sessionId (source r) = js ''not-found'') \<and>
     (\<exists>c s. clientId r = JStr c \<and> sessionId r = JStr s)"
proof -
  assume a: "fst (getGA4IdentifiersSync e mid) = Inr r"
  have ne: "js ''cookie'' \<noteq> js ''not-found''" by (simp add: js_def)
  from a obtain c s where c: "fst (getClientIdFromCookie e) = Inr c"
    and s: "fst (getSessionIdFromCookie e mid) = Inr s"
    and r: "r = \<lparr>clientId = JStr c, sessionId = JStr s,
                 source = \<lparr>of_clientId = (if c \<noteq> [] then js ''cookie'' else js ''not-found''),
                           of_sessionId = (if s \<noteq> [] then js ''cookie'' else js ''not-found'')\<rparr>\<rparr>"
    by (auto simp: getGA4IdentifiersSync_fst split: sum.splits)
  from r ne show ?thesis by auto
qed

theorem getGA4IdentifiersSync_consistent_witness:
  "fst (getGA4IdentifiersSync (page (js ''_ga=GA1.2.1234567890.1111111111'')) (js ''G-ABCDEF1234'')) =
     Inr \<lparr>clientId = JStr (js ''1234567890.1111111111''), sessionId = JStr [],
          source = \<lparr>of_clientId = js ''cookie'', of_sessionId = js ''not-found''\<rparr>\<rparr> \<and>
   JStr (js ''1234567890.1111111111'') \<noteq> JStr [] \<and> js ''not-found'' \<noteq> js ''cookie''"
proof -
  have r: "fst (getGA4IdentifiersSync (page (js ''_ga=GA1.2.1234567890.1111111111'')) (js ''G-ABCDEF1234'')) =
     Inr \<lparr>clientId = JStr (js ''1234567890.1111111111''), sessionId = JStr [],
          source = \<lparr>of_clientId = js ''cookie'', of_sessionId = js ''not-found''\<rparr>\<rparr>"
    by (simp add: getGA4IdentifiersSync_fst getClientIdFromCookie_fst getSessionIdFromCookie_fst cookie_eval)
  have "JStr (js ''1234567890.1111111111'') \<noteq> JStr [] \<and> js ''not-found'' \<noteq> js ''cookie''"
    using getGA4IdentifiersSync_consistent [OF r] by simp
  with r show ?thesis by simp
qed

section \<open>Properties of promises\<close>

lemma settled_Cons: "settled (x # xs) = Some x"
  by (simp add: settled_def)

text \<open>
  A promise never settles before the call that decides it, it is never fulfilled with a
  thenable, and it is rejected through \<open>resolve\<close> only by a thenable.
\<close>

lemma follow_time: "follow t x = Some (t', a) \<Longrightarrow> t \<le> t'"
  by (induction t x rule: follow.induct) auto

lemma follow_plain: "\<not> is_thenable x \<Longrightarrow> follow t x = Some (t, Resolve x)"
  by (cases x) auto

lemma follow_value: "follow t x = Some (t', Resolve y) \<Longrightarrow> \<not> is_thenable y"
  by (induction t x rule: follow.induct) auto

lemma follow_reject: "follow t x = Some (t', Reject err) \<Longrightarrow> is_thenable x"
  by (cases x) auto

lemma outcome_Nil: "outcome [] = None"
  by (simp add: outcome_def)

lemma outcome_Resolve: "outcome ((t, Resolve x) # p) = follow t x"
  by (simp add: outcome_def)

lemma outcome_Reject: "outcome ((t, Reject err) # p) = Some (t, Reject err)"
  by (simp add: outcome_def)

lemma outcome_first: "outcome (x # xs) = outcome [x]"
  by (cases x, cases "snd x") (auto simp: outcome_def)

lemma outcome_value: "outcome p = Some (t, Resolve y) \<Longrightarrow> \<not> is_thenable y"
  by (auto simp: outcome_def split: list.splits attempt.splits dest: follow_value)

lemma outcome_time: "outcome (x # xs) = Some (t, a) \<Longrightarrow> fst x \<le> t"
  by (cases x, cases "snd x") (auto simp: outcome_def dest: follow_time)

lemma state_at_sorted:
  "sorted (map fst p) \<Longrightarrow>
     state_at p t =
       (case outcome p of None \<Rightarrow> None | Some (t', a) \<Rightarrow> if t' \<le> t then Some a else None)"
proof (cases p)
  case Nil
  then show ?thesis by (simp add: state_at_def outcome_Nil)
next
  case (Cons x xs)
  assume s: "sorted (map fst p)"
  have o: "outcome (x # xs) = outcome [x]" by (rule outcome_first)
  show ?thesis
  proof (cases "fst x \<le> t")
    case True
    with Cons o show ?thesis by (simp add: state_at_def)
  next
    case False
    from s Cons have "\<forall>y \<in> set xs. fst x \<le> fst y" by auto
    with False have f: "filter (\<lambda>y. fst y \<le> t) xs = []" by (auto simp: filter_empty_conv)
    have "\<And>t' a. outcome (x # xs) = Some (t', a) \<Longrightarrow> \<not> t' \<le> t"
      using outcome_time False by fastforce
    with False Cons f show ?thesis
      by (auto simp: state_at_def split: option.splits)
  qed
qed

lemma state_at_keeps:
  "sorted (map fst p) \<Longrightarrow> state_at p t = Some a \<Longrightarrow> t \<le> t' \<Longrightarrow> state_at p t' = Some a"
  by (auto simp: state_at_sorted split: option.splits if_splits)

lemma timer_outcome:
  "outcome (timer e t0 ms) = Some (t0 + timer_delay ms + timer_lag e, Resolve (JStr []))"
  by (simp add: timer_def outcome_Resolve)

lemma race_timer:
  "outcome (race [p, timer e t0 ms]) =
     (case outcome p of
        None \<Rightarrow> Some (t0 + timer_delay ms + timer_lag e, Resolve (JStr []))
      | Some (t, a) \<Rightarrow>
          if t \<le> t0 + timer_delay ms + timer_lag e then Some (t, a)
          else Some (t0 + timer_delay ms + timer_lag e, Resolve (JStr [])))"
proof (cases "outcome p")
  case None
  then show ?thesis
    by (simp add: race_def List.map_filter_simps timer_outcome outcome_Resolve)
next
  case (Some r)
  obtain t a where r: "r = (t, a)" by (cases r)
  show ?thesis
  proof (cases a)
    case (Resolve y)
    with Some r have "\<not> is_thenable y" using outcome_value by blast
    then have "follow t y = Some (t, Resolve y)" by (rule follow_plain)
    with Some r Resolve show ?thesis
      by (simp add: race_def List.map_filter_simps timer_outcome outcome_Resolve)
  next
    case (Reject err)
    with Some r show ?thesis
      by (simp add: race_def List.map_filter_simps timer_outcome outcome_Resolve outcome_Reject)
  qed
qed

lemma race_timer_bounds:
  assumes "\<And>t a. outcome p = Some (t, a) \<Longrightarrow> t0 \<le> t"
  shows "\<exists>t a. outcome (race [p, timer e t0 ms]) = Some (t, a) \<and> t0 \<le> t \<and>
           t \<le> t0 + timer_delay ms + timer_lag e"
proof (cases "outcome p")
  case None
  then show ?thesis by (simp add: race_timer)
next
  case (Some r)
  obtain t a where r: "r = (t, a)" by (cases r)
  with Some assms have "t0 \<le> t" by blast
  with Some r show ?thesis by (simp add: race_timer)
qed

lemma race_value: "outcome (race [p, timer e t0 ms]) = Some (t, Resolve y) \<Longrightarrow> \<not> is_thenable y"
  by (auto simp: race_timer split: option.splits if_splits dest: outcome_value)

text \<open>The delay of a timer is its timeout, for a whole timeout below \<open>2^31\<close>.\<close>

lemma timer_delay_nat: "n < 2 ^ 31 \<Longrightarrow> timer_delay (Finite (of_nat n)) = n"
  by (simp add: timer_delay_def to_int32_def Let_def)

section \<open>Properties of the live API wrappers\<close>

lemma shift_sorted:
  "sorted (map fst ys) \<Longrightarrow> sorted (map fst (map (\<lambda>(d, x). (t0 + d, f x)) (ys :: (nat \<times> 'a) list)))"
  by (induction ys) (auto simp: case_prod_beta)

lemma later_sorted:
  "sorted (map fst (map (\<lambda>(d, x). (t0 + d, f x)) (sort_key fst (xs :: (nat \<times> 'a) list))))"
  by (rule shift_sorted) (rule sorted_sort_key)

lemma sorted_prepend_same:
  "sorted (map fst rest) \<Longrightarrow> \<forall>y \<in> set rest. t0 \<le> fst y \<Longrightarrow>
     sorted (map fst (map (\<lambda>x. (t0 :: nat, g x)) xs @ rest))"
  by (induction xs) auto

lemma wrapper_promise_sorted:
  "sorted (map fst
     (map (\<lambda>x. (t0 :: nat, Resolve (or_empty x))) xs @
      (case th of None \<Rightarrow> [] | Some (err :: error) \<Rightarrow> [(t0, Resolve (JStr []))]) @
      map (\<lambda>(d, x). (t0 + d, Resolve (or_empty x))) (sort_key fst ys)))"
proof -
  let ?C = "map (\<lambda>(d, x). (t0 + d, Resolve (or_empty x))) (sort_key fst ys)"
  let ?B = "case th of None \<Rightarrow> [] | Some err \<Rightarrow> [(t0, Resolve (JStr []))]"
  have c: "sorted (map fst ?C)" by (rule later_sorted)
  have c': "\<forall>y \<in> set ?C. t0 \<le> fst y" by auto
  have bc: "sorted (map fst (?B @ ?C))"
  proof (cases th)
    case None
    with c show ?thesis by simp
  next
    case (Some err)
    with c c' show ?thesis by simp
  qed
  have bc': "\<forall>y \<in> set (?B @ ?C). t0 \<le> fst y"
  proof (cases th)
    case None
    with c' show ?thesis by simp
  next
    case (Some err)
    with c' show ?thesis by simp
  qed
  from bc bc' show ?thesis by (rule sorted_prepend_same)
qed

lemma wrapper_promise_times:
  "\<forall>y \<in> set
     (map (\<lambda>x. (t0 :: nat, Resolve (or_empty x))) xs @
      (case th of None \<Rightarrow> [] | Some (err :: error) \<Rightarrow> [(t0, Resolve (JStr []))]) @
      map (\<lambda>(d, x). (t0 + d, Resolve (or_empty x))) ys). t0 \<le> fst y"
  by (cases th) auto

lemma or_empty_thenable: "is_thenable (or_empty x) \<Longrightarrow> or_empty x = x"
  by (simp add: or_empty_def split: if_splits)

lemma wrapper_promise_values:
  "\<forall>y \<in> set
     (map (\<lambda>x. (t0 :: nat, Resolve (or_empty x))) xs @
      (case th of None \<Rightarrow> [] | Some (err :: error) \<Rightarrow> [(t0, Resolve (JStr []))]) @
      map (\<lambda>(d, x). (t0 + d, Resolve (or_empty x))) ys).
     \<exists>v. snd y = Resolve v \<and> (is_thenable v \<longrightarrow> v \<in> set (xs @ map snd ys))"
proof (intro ballI)
  fix y
  assume "y \<in> set
     (map (\<lambda>x. (t0, Resolve (or_empty x))) xs @
      (case th of None \<Rightarrow> [] | Some err \<Rightarrow> [(t0, Resolve (JStr []))]) @
      map (\<lambda>(d, x). (t0 + d, Resolve (or_empty x))) ys)"
  then consider (a) x where "x \<in> set xs" "y = (t0, Resolve (or_empty x))"
    | (b) "y = (t0, Resolve (JStr []))"
    | (c) d x where "(d, x) \<in> set ys" "y = (t0 + d, Resolve (or_empty x))"
    by (cases th) auto
  then show "\<exists>v. snd y = Resolve v \<and> (is_thenable v \<longrightarrow> v \<in> set (xs @ map snd ys))"
  proof cases
    case a
    then show ?thesis using or_empty_thenable [of x] by auto
  next
    case b
    then show ?thesis by simp
  next
    case c
    then have "x \<in> set (map snd ys)" by force
    with c show ?thesis using or_empty_thenable [of x] by auto
  qed
qed

lemma rejected_by_thenable:
  assumes v: "\<forall>y \<in> set p. \<exists>v. snd y = Resolve v \<and> (is_thenable v \<longrightarrow> v \<in> set xs)"
    and o: "outcome p = Some (t, Reject err)"
  shows "list_ex is_thenable xs"
proof (cases p)
  case Nil
  with o show ?thesis by (simp add: outcome_Nil)
next
  case (Cons y ys)
  with v obtain x where x: "snd y = Resolve x" and m: "is_thenable x \<longrightarrow> x \<in> set xs" by auto
  then have y: "y = (fst y, Resolve x)" by (cases y) simp
  from o Cons have "outcome (y # ys) = Some (t, Reject err)" by simp
  then have "follow (fst y) x = Some (t, Reject err)"
    by (subst (asm) y) (simp add: outcome_Resolve)
  then have "is_thenable x" by (rule follow_reject)
  with m show ?thesis by (auto simp: list_ex_iff)
qed

lemma wrapper_contract_holds:
  "wrapper_contract run t0 message
     (map (\<lambda>x. (t0, Resolve (or_empty x))) (sync_calls run) @
      (case thrown run of None \<Rightarrow> [] | Some err \<Rightarrow> [(t0, Resolve (JStr []))]) @
      map (\<lambda>(d, x). (t0 + d, Resolve (or_empty x))) (sort_key fst (later_calls run)),
      (t0, CallGtag mid property) #
      (case thrown run of None \<Rightarrow> [] | Some err \<Rightarrow> [(t0, Warn message err)]))"
  (is "wrapper_contract run t0 message (?p, ?fx)")
proof -
  have s: "sorted (map fst ?p)" by (rule wrapper_promise_sorted)
  have k: "\<forall>t t' a. state_at ?p t = Some a \<and> t \<le> t' \<longrightarrow> state_at ?p t' = Some a"
    using state_at_keeps [OF s] by blast
  have e: "sync_calls run = [] \<and> thrown run = None \<and> later_calls run = [] \<longrightarrow> outcome ?p = None"
    by (simp add: outcome_Nil)
  have l: "\<forall>d x rest. sync_calls run = [] \<and> thrown run = None \<and>
        sort_key fst (later_calls run) = (d, x) # rest \<longrightarrow>
        outcome ?p = follow (t0 + d) (if truthy x then x else JStr [])"
    by (simp add: outcome_Resolve or_empty_def)
  have f: "\<forall>x xs. sync_calls run = x # xs \<longrightarrow>
        outcome ?p = follow t0 (if truthy x then x else JStr [])"
    by (simp add: outcome_Resolve or_empty_def)
  have f': "\<forall>x xs. sync_calls run = x # xs \<and> \<not> is_thenable x \<longrightarrow>
        outcome ?p = Some (t0, Resolve (if truthy x then x else JStr []))"
  proof (intro allI impI)
    fix x xs assume a: "sync_calls run = x # xs \<and> \<not> is_thenable x"
    then have "\<not> is_thenable (if truthy x then x else JStr [])" by simp
    then have "follow t0 (if truthy x then x else JStr []) =
        Some (t0, Resolve (if truthy x then x else JStr []))"
      by (rule follow_plain)
    with f a show "outcome ?p = Some (t0, Resolve (if truthy x then x else JStr []))"
      by metis
  qed
  have t1: "\<forall>err. thrown run = Some err \<longrightarrow>
        (t0, Resolve (JStr [])) \<in> set ?p \<and> (t0, Warn message err) \<in> set ?fx"
    by simp
  have t2: "\<forall>err. sync_calls run = [] \<and> thrown run = Some err \<longrightarrow>
        outcome ?p = Some (t0, Resolve (JStr []))"
    by (simp add: outcome_Resolve)
  have v: "\<forall>y \<in> set ?p. \<exists>v. snd y = Resolve v \<and>
      (is_thenable v \<longrightarrow> v \<in> set (sync_calls run @ map snd (sort_key fst (later_calls run))))"
    by (rule wrapper_promise_values)
  have "set (sync_calls run @ map snd (sort_key fst (later_calls run))) =
      set (sync_calls run @ map snd (later_calls run))"
    by simp
  with v have v': "\<forall>y \<in> set ?p. \<exists>v. snd y = Resolve v \<and>
      (is_thenable v \<longrightarrow> v \<in> set (sync_calls run @ map snd (later_calls run)))"
    by simp
  have r: "\<forall>t err. outcome ?p = Some (t, Reject err) \<longrightarrow>
      list_ex is_thenable (sync_calls run @ map snd (later_calls run))"
    using rejected_by_thenable [OF v'] by blast
  from f f' t1 t2 l e r k show ?thesis
    unfolding wrapper_contract_def fst_conv snd_conv
    apply -
    apply (intro conjI)
           apply assumption+
    done
qed

lemma getClientIdFromGtag_times:
  "outcome (fst (getClientIdFromGtag w t0 mid)) = Some (t, a) \<Longrightarrow> t0 \<le> t"
proof -
  assume o: "outcome (fst (getClientIdFromGtag w t0 mid)) = Some (t, a)"
  then obtain y ys where p: "fst (getClientIdFromGtag w t0 mid) = y # ys"
    by (cases "fst (getClientIdFromGtag w t0 mid)") (auto simp: outcome_Nil)
  then have "y \<in> set (fst (getClientIdFromGtag w t0 mid))" by simp
  then have "t0 \<le> fst y"
    unfolding getClientIdFromGtag_def Let_def fst_conv using wrapper_promise_times by blast
  moreover from o p have "fst y \<le> t" using outcome_time by metis
  ultimately show ?thesis by simp
qed

lemma getSessionIdFromGtag_times:
  "outcome (fst (getSessionIdFromGtag w t0 mid)) = Some (t, a) \<Longrightarrow> t0 \<le> t"
proof -
  assume o: "outcome (fst (getSessionIdFromGtag w t0 mid)) = Some (t, a)"
  then obtain y ys where p: "fst (getSessionIdFromGtag w t0 mid) = y # ys"
    by (cases "fst (getSessionIdFromGtag w t0 mid)") (auto simp: outcome_Nil)
  then have "y \<in> set (fst (getSessionIdFromGtag w t0 mid))" by simp
  then have "t0 \<le> fst y"
    unfolding getSessionIdFromGtag_def Let_def fst_conv using wrapper_promise_times by blast
  moreover from o p have "fst y \<le> t" using outcome_time by metis
  ultimately show ?thesis by simp
qed

lemma getClientIdFromGtag_no_cookie:
  "\<forall>x \<in> set (snd (getClientIdFromGtag w t0 mid)). snd x \<noteq> ReadCookie"
  by (auto simp: getClientIdFromGtag_def Let_def split: option.splits)

lemma getSessionIdFromGtag_no_cookie:
  "\<forall>x \<in> set (snd (getSessionIdFromGtag w t0 mid)). snd x \<noteq> ReadCookie"
  by (auto simp: getSessionIdFromGtag_def Let_def split: option.splits)

lemma silent_wrapper:
  "sync_calls (call_gtag (w t0) mid (js ''client_id'')) = [] \<Longrightarrow>
   later_calls (call_gtag (w t0) mid (js ''client_id'')) = [] \<Longrightarrow>
     fst (getClientIdFromGtag w t0 mid) =
       (case thrown (call_gtag (w t0) mid (js ''client_id'')) of
          None \<Rightarrow> [] | Some err \<Rightarrow> [(t0, Resolve (JStr []))])"
  by (simp add: getClientIdFromGtag_def Let_def)

text \<open>
  C3, as stated: the wrappers never reject. They do when \<open>gtag\<close> hands the callback a
  thenable that rejects: \<open>resolve\<close> follows the thenable, and the promise of the wrapper is
  rejected with its reason.
\<close>

theorem gtag_wrappers_thenable_counterexample:
  "outcome (fst (getClientIdFromGtag example_rejecting 0 (js ''G-ABCDEF1234''))) =
     Some (5, Reject (Thrown (JStr (js ''no'')))) \<and>
   outcome (fst (getSessionIdFromGtag example_rejecting 0 (js ''G-ABCDEF1234''))) =
     Some (5, Reject (Thrown (JStr (js ''no''))))"
  by (simp add: getClientIdFromGtag_def getSessionIdFromGtag_def call_gtag_def
      example_rejecting_def live_page_def answers_def or_empty_def outcome_Resolve)

text \<open>
  C3, amended. For every measurement id, the promise of \<open>getClientIdFromGtag\<close> and of
  \<open>getSessionIdFromGtag\<close> is decided by the value the callback gets first: it is resolved
  with that value, or with the empty string when the value is falsy. A value that is no
  thenable fulfils the promise; a thenable is followed, and the promise is rejected only
  so, when a thenable handed to the callback rejects. When the call of \<open>gtag\<close> throws, the
  wrapper catches the exception, warns and calls \<open>resolve\<close> with the empty string, which
  fulfils the promise unless the callback ran before; and a promise that is settled keeps
  its state, whatever is resolved later.
\<close>

theorem gtag_wrappers_contract:
  "wrapper_contract (call_gtag (w t0) mid (js ''client_id'')) t0
     (js ''Error getting client_id from gtag:'') (getClientIdFromGtag w t0 mid) \<and>
   wrapper_contract (call_gtag (w t0) mid (js ''session_id'')) t0
     (js ''Error getting session_id from gtag:'') (getSessionIdFromGtag w t0 mid)"
  unfolding getClientIdFromGtag_def getSessionIdFromGtag_def Let_def
  by (intro conjI wrapper_contract_holds)

theorem gtag_wrappers_contract_witness:
  "outcome (fst (getClientIdFromGtag example_live 0 (js ''G-ABCDEF1234''))) =
     Some (0, Resolve (JStr (js ''1234567890.1111111111''))) \<and>
   outcome (fst (getSessionIdFromGtag example_live 7 (js ''G-ABCDEF1234''))) =
     Some (7, Resolve (JStr (js ''9988''))) \<and>
   outcome (fst (getClientIdFromGtag example_throwing 0 (js ''G-ABCDEF1234''))) =
     Some (0, Resolve (JStr [])) \<and>
   (0, Warn (js ''Error getting client_id from gtag:'') (Thrown (JStr (js ''blocked'')))) \<in>
     set (snd (getClientIdFromGtag example_throwing 0 (js ''G-ABCDEF1234''))) \<and>
   outcome (fst (getSessionIdFromGtag example_cookies 0 (js ''G-ABCDEF1234''))) =
     Some (0, Resolve (JStr [])) \<and>
   (0, Warn (js ''Error getting session_id from gtag:'') NotCallable) \<in>
     set (snd (getSessionIdFromGtag example_cookies 0 (js ''G-ABCDEF1234''))) \<and>
   outcome (fst (getClientIdFromGtag example_late 5 (js ''G-ABCDEF1234''))) =
     Some (15, Resolve (JStr [])) \<and>
   state_at (fst (getClientIdFromGtag example_late 5 (js ''G-ABCDEF1234''))) 20 =
     Some (Resolve (JStr [])) \<and>
   state_at (fst (getClientIdFromGtag example_late 5 (js ''G-ABCDEF1234''))) 40 =
     Some (Resolve (JStr [])) \<and>
   outcome (fst (getClientIdFromGtag example_blocked 0 (js ''G-ABCDEF1234''))) = None \<and>
   outcome (fst (getSessionIdFromGtag example_rejecting 0 (js ''G-ABCDEF1234''))) =
     Some (5, Reject (Thrown (JStr (js ''no'')))) \<and>
   list_ex is_thenable
     (sync_calls (call_gtag (example_rejecting 0) (js ''G-ABCDEF1234'') (js ''session_id'')) @
      map snd (later_calls (call_gtag (example_rejecting 0) (js ''G-ABCDEF1234'') (js ''session_id''))))"
proof -
  let ?mid = "js ''G-ABCDEF1234''"
  note live = gtag_wrappers_contract [of example_live 0 ?mid, THEN conjunct1,
      unfolded wrapper_contract_def]
  note live7 = gtag_wrappers_contract [of example_live 7 ?mid, THEN conjunct2,
      unfolded wrapper_contract_def]
  note throwing = gtag_wrappers_contract [of example_throwing 0 ?mid, THEN conjunct1,
      unfolded wrapper_contract_def]
  note cookies = gtag_wrappers_contract [of example_cookies 0 ?mid, THEN conjunct2,
      unfolded wrapper_contract_def]
  note late = gtag_wrappers_contract [of example_late 5 ?mid, THEN conjunct1,
      unfolded wrapper_contract_def]
  note blocked = gtag_wrappers_contract [of example_blocked 0 ?mid, THEN conjunct1,
      unfolded wrapper_contract_def]
  note rejecting = gtag_wrappers_contract [of example_rejecting 0 ?mid, THEN conjunct2,
      unfolded wrapper_contract_def]
  have g1: "sync_calls (call_gtag (example_live 0) ?mid (js ''client_id'')) =
      [JStr (js ''1234567890.1111111111'')] \<and> \<not> is_thenable (JStr (js ''1234567890.1111111111''))"
    by (simp add: example_live_def call_gtag_def live_page_def answers_def)
  from live [THEN conjunct2, THEN conjunct1, rule_format, OF g1]
  have 1: "outcome (fst (getClientIdFromGtag example_live 0 ?mid)) =
     Some (0, Resolve (JStr (js ''1234567890.1111111111'')))"
    by (simp add: js_def)
  have g2: "sync_calls (call_gtag (example_live 7) ?mid (js ''session_id'')) = [JStr (js ''9988'')] \<and>
      \<not> is_thenable (JStr (js ''9988''))"
    by (simp add: example_live_def call_gtag_def live_page_def answers_def js_def)
  from live7 [THEN conjunct2, THEN conjunct1, rule_format, OF g2]
  have 2: "outcome (fst (getSessionIdFromGtag example_live 7 ?mid)) =
     Some (7, Resolve (JStr (js ''9988'')))"
    by (simp add: js_def)
  have g3: "sync_calls (call_gtag (example_throwing 0) ?mid (js ''client_id'')) = [] \<and>
      thrown (call_gtag (example_throwing 0) ?mid (js ''client_id'')) =
        Some (Thrown (JStr (js ''blocked'')))"
    by (simp add: example_throwing_def call_gtag_def live_page_def throws_def)
  from throwing [THEN conjunct2, THEN conjunct2, THEN conjunct2, THEN conjunct1,
      rule_format, OF g3]
  have 3: "outcome (fst (getClientIdFromGtag example_throwing 0 ?mid)) = Some (0, Resolve (JStr []))" .
  from throwing [THEN conjunct2, THEN conjunct2, THEN conjunct1, rule_format,
      OF g3 [THEN conjunct2]]
  have 4: "(0, Warn (js ''Error getting client_id from gtag:'') (Thrown (JStr (js ''blocked'')))) \<in>
     set (snd (getClientIdFromGtag example_throwing 0 ?mid))"
    by (rule conjunct2)
  have g5: "sync_calls (call_gtag (example_cookies 0) ?mid (js ''session_id'')) = [] \<and>
      thrown (call_gtag (example_cookies 0) ?mid (js ''session_id'')) = Some NotCallable"
    by (simp add: example_cookies_def call_gtag_def page_def)
  from cookies [THEN conjunct2, THEN conjunct2, THEN conjunct2, THEN conjunct1,
      rule_format, OF g5]
  have 5: "outcome (fst (getSessionIdFromGtag example_cookies 0 ?mid)) = Some (0, Resolve (JStr []))" .
  from cookies [THEN conjunct2, THEN conjunct2, THEN conjunct1, rule_format,
      OF g5 [THEN conjunct2]]
  have 6: "(0, Warn (js ''Error getting session_id from gtag:'') NotCallable) \<in>
     set (snd (getSessionIdFromGtag example_cookies 0 ?mid))"
    by (rule conjunct2)
  have g7: "sync_calls (call_gtag (example_late 5) ?mid (js ''client_id'')) = [] \<and>
      thrown (call_gtag (example_late 5) ?mid (js ''client_id'')) = None \<and>
      sort_key fst (later_calls (call_gtag (example_late 5) ?mid (js ''client_id''))) =
        (10, JUndefined) # [(30, JStr (js ''late''))]"
    by (simp add: example_late_def call_gtag_def live_page_def)
  from late [THEN conjunct2, THEN conjunct2, THEN conjunct2, THEN conjunct2,
      THEN conjunct1, rule_format, OF g7]
  have 7: "outcome (fst (getClientIdFromGtag example_late 5 ?mid)) = Some (15, Resolve (JStr []))"
    by simp
  have 8: "state_at (fst (getClientIdFromGtag example_late 5 ?mid)) 20 = Some (Resolve (JStr []))"
    by (simp add: state_at_def getClientIdFromGtag_def example_late_def call_gtag_def
        live_page_def or_empty_def outcome_Resolve)
  have g9: "state_at (fst (getClientIdFromGtag example_late 5 ?mid)) 20 = Some (Resolve (JStr [])) \<and>
      (20 :: nat) \<le> 40"
    using 8 by simp
  from late [THEN conjunct2, THEN conjunct2, THEN conjunct2, THEN conjunct2, THEN conjunct2,
      THEN conjunct2, THEN conjunct2, rule_format, OF g9]
  have 9: "state_at (fst (getClientIdFromGtag example_late 5 ?mid)) 40 = Some (Resolve (JStr []))" .
  have g10: "sync_calls (call_gtag (example_blocked 0) ?mid (js ''client_id'')) = [] \<and>
      thrown (call_gtag (example_blocked 0) ?mid (js ''client_id'')) = None \<and>
      later_calls (call_gtag (example_blocked 0) ?mid (js ''client_id'')) = []"
    by (simp add: example_blocked_def call_gtag_def live_page_def silent_def)
  from blocked [THEN conjunct2, THEN conjunct2, THEN conjunct2, THEN conjunct2, THEN conjunct2,
      THEN conjunct1, THEN mp, OF g10]
  have 10: "outcome (fst (getClientIdFromGtag example_blocked 0 ?mid)) = None" .
  have g11: "sync_calls (call_gtag (example_rejecting 0) ?mid (js ''session_id'')) =
      [JThenable (Rejects 5 (JStr (js ''no'')))]"
    by (simp add: example_rejecting_def call_gtag_def live_page_def answers_def)
  from rejecting [THEN conjunct1, rule_format, OF g11]
  have 11: "outcome (fst (getSessionIdFromGtag example_rejecting 0 ?mid)) =
      Some (5, Reject (Thrown (JStr (js ''no''))))"
    by simp
  from rejecting [THEN conjunct2, THEN conjunct2, THEN conjunct2, THEN conjunct2, THEN conjunct2,
      THEN conjunct2, THEN conjunct1, rule_format, OF 11]
  have 12: "list_ex is_thenable
     (sync_calls (call_gtag (example_rejecting 0) ?mid (js ''session_id'')) @
      map snd (later_calls (call_gtag (example_rejecting 0) ?mid (js ''session_id''))))" .
  from 1 2 3 4 5 6 7 8 9 10 11 12 show ?thesis
    apply -
    apply (intro conjI)
               apply assumption+
    done
qed

section \<open>Properties of the resolvers\<close>

lemma getClientId_fst:
  "fst (getClientId w t0 mid timeout) =
     (if truthy (fst (isGtagAvailable (w t0) mid)) then
        (case outcome (race [fst (getClientIdFromGtag w t0 mid),
                             timer (w t0) t0 (default_timeout timeout)]) of
           None \<Rightarrow> []
         | Some (t, Resolve x) \<Rightarrow>
             if truthy x then [(t, Resolve x)]
             else async_return t (fst (getClientIdFromCookie (w t)))
         | Some (t, Reject err) \<Rightarrow> async_return t (fst (getClientIdFromCookie (w t))))
      else async_return t0 (fst (getClientIdFromCookie (w t0))))"
  by (simp add: getClientId_def Let_def split: prod.splits option.splits attempt.splits)

lemma getSessionId_fst:
  "fst (getSessionId w t0 mid timeout) =
     (if truthy (fst (isGtagAvailable (w t0) mid)) then
        (case outcome (race [fst (getSessionIdFromGtag w t0 mid),
                             timer (w t0) t0 (default_timeout timeout)]) of
           None \<Rightarrow> []
         | Some (t, Resolve x) \<Rightarrow>
             if truthy x then [(t, Resolve x)]
             else async_return t (fst (getSessionIdFromCookie (w t) mid))
         | Some (t, Reject err) \<Rightarrow> async_return t (fst (getSessionIdFromCookie (w t) mid)))
      else async_return t0 (fst (getSessionIdFromCookie (w t0) mid)))"
  by (simp add: getSessionId_def Let_def split: prod.splits option.splits attempt.splits)

lemma isGtagAvailable_reads: "list_all is_read (snd (isGtagAvailable e mid))"
  by (simp add: isGtagAvailable_def)

lemma isGtagAvailable_no_cookie: "ReadCookie \<notin> set (snd (isGtagAvailable e mid))"
  by (simp add: isGtagAvailable_def)

lemma getClientId_unavailable_effects:
  "\<not> truthy (fst (isGtagAvailable (w t0) mid)) \<Longrightarrow>
     list_all (\<lambda>x. is_read (snd x)) (snd (getClientId w t0 mid timeout))"
  using isGtagAvailable_reads [of "w t0" mid] getClientIdFromCookie_effects [of "w t0"]
  by (auto simp: getClientId_def Let_def stamp_def list_all_iff split: prod.splits)

lemma getSessionId_unavailable_effects:
  "\<not> truthy (fst (isGtagAvailable (w t0) mid)) \<Longrightarrow>
     list_all (\<lambda>x. is_read (snd x)) (snd (getSessionId w t0 mid timeout))"
  using isGtagAvailable_reads [of "w t0" mid] getSessionIdFromCookie_effects [of "w t0" mid]
  by (auto simp: getSessionId_def Let_def stamp_def list_all_iff split: prod.splits)

lemma getClientId_live_effects:
  "truthy (fst (isGtagAvailable (w t0) mid)) \<Longrightarrow>
   outcome (race [fst (getClientIdFromGtag w t0 mid), timer (w t0) t0 (default_timeout timeout)]) =
     Some (t, Resolve x) \<Longrightarrow>
   truthy x \<Longrightarrow>
     list_all (\<lambda>x. snd x \<noteq> ReadCookie) (snd (getClientId w t0 mid timeout))"
  using isGtagAvailable_no_cookie [of "w t0" mid] getClientIdFromGtag_no_cookie [of w t0 mid]
  by (auto simp: getClientId_def Let_def stamp_def list_all_iff split: prod.splits)

lemma getSessionId_live_effects:
  "truthy (fst (isGtagAvailable (w t0) mid)) \<Longrightarrow>
   outcome (race [fst (getSessionIdFromGtag w t0 mid), timer (w t0) t0 (default_timeout timeout)]) =
     Some (t, Resolve x) \<Longrightarrow>
   truthy x \<Longrightarrow>
     list_all (\<lambda>x. snd x \<noteq> ReadCookie) (snd (getSessionId w t0 mid timeout))"
  using isGtagAvailable_no_cookie [of "w t0" mid] getSessionIdFromGtag_no_cookie [of w t0 mid]
  by (auto simp: getSessionId_def Let_def stamp_def list_all_iff split: prod.splits)

lemma getClientId_warns:
  "truthy (fst (isGtagAvailable (w t0) mid)) \<Longrightarrow>
   outcome (race [fst (getClientIdFromGtag w t0 mid), timer (w t0) t0 (default_timeout timeout)]) =
     Some (t, Reject err) \<Longrightarrow>
     (t, Warn (js ''Native gtag client_id failed, falling back to cookie:'') err) \<in>
       set (snd (getClientId w t0 mid timeout))"
  by (auto simp: getClientId_def Let_def split: prod.splits)

lemma getSessionId_warns:
  "truthy (fst (isGtagAvailable (w t0) mid)) \<Longrightarrow>
   outcome (race [fst (getSessionIdFromGtag w t0 mid), timer (w t0) t0 (default_timeout timeout)]) =
     Some (t, Reject err) \<Longrightarrow>
     (t, Warn (js ''Native gtag session_id failed, falling back to cookie:'') err) \<in>
       set (snd (getSessionId w t0 mid timeout))"
  by (auto simp: getSessionId_def Let_def split: prod.splits)

lemma getClientId_settles:
  "\<exists>t a. fst (getClientId w t0 mid timeout) = [(t, a)] \<and> t0 \<le> t \<and>
     t \<le> t0 + timer_delay (default_timeout timeout) + timer_lag (w t0) \<and>
     (\<forall>x. a = Resolve x \<longrightarrow> \<not> is_thenable x)"
proof (cases "truthy (fst (isGtagAvailable (w t0) mid))")
  case False
  then show ?thesis
    by (cases "fst (getClientIdFromCookie (w t0))") (auto simp: getClientId_fst async_return_def)
next
  case True
  let ?r = "race [fst (getClientIdFromGtag w t0 mid), timer (w t0) t0 (default_timeout timeout)]"
  have "\<exists>t a. outcome ?r = Some (t, a) \<and> t0 \<le> t \<and>
      t \<le> t0 + timer_delay (default_timeout timeout) + timer_lag (w t0)"
    by (rule race_timer_bounds) (rule getClientIdFromGtag_times)
  then obtain t a where r: "outcome ?r = Some (t, a)"
    and b: "t0 \<le> t" "t \<le> t0 + timer_delay (default_timeout timeout) + timer_lag (w t0)" by blast
  have "\<exists>a'. fst (getClientId w t0 mid timeout) = [(t, a')] \<and>
      (\<forall>x. a' = Resolve x \<longrightarrow> \<not> is_thenable x)"
  proof (cases a)
    case (Resolve x)
    with r have "\<not> is_thenable x" using race_value by blast
    with True r Resolve show ?thesis
      by (cases "fst (getClientIdFromCookie (w t))") (auto simp: getClientId_fst async_return_def)
  next
    case (Reject err)
    with True r show ?thesis
      by (cases "fst (getClientIdFromCookie (w t))") (auto simp: getClientId_fst async_return_def)
  qed
  with b show ?thesis by blast
qed

lemma getSessionId_settles:
  "\<exists>t a. fst (getSessionId w t0 mid timeout) = [(t, a)] \<and> t0 \<le> t \<and>
     t \<le> t0 + timer_delay (default_timeout timeout) + timer_lag (w t0) \<and>
     (\<forall>x. a = Resolve x \<longrightarrow> \<not> is_thenable x)"
proof (cases "truthy (fst (isGtagAvailable (w t0) mid))")
  case False
  then show ?thesis
    by (cases "fst (getSessionIdFromCookie (w t0) mid)")
      (auto simp: getSessionId_fst async_return_def)
next
  case True
  let ?r = "race [fst (getSessionIdFromGtag w t0 mid), timer (w t0) t0 (default_timeout timeout)]"
  have "\<exists>t a. outcome ?r = Some (t, a) \<and> t0 \<le> t \<and>
      t \<le> t0 + timer_delay (default_timeout timeout) + timer_lag (w t0)"
    by (rule race_timer_bounds) (rule getSessionIdFromGtag_times)
  then obtain t a where r: "outcome ?r = Some (t, a)"
    and b: "t0 \<le> t" "t \<le> t0 + timer_delay (default_timeout timeout) + timer_lag (w t0)" by blast
  have "\<exists>a'. fst (getSessionId w t0 mid timeout) = [(t, a')] \<and>
      (\<forall>x. a' = Resolve x \<longrightarrow> \<not> is_thenable x)"
  proof (cases a)
    case (Resolve x)
    with r have "\<not> is_thenable x" using race_value by blast
    with True r Resolve show ?thesis
      by (cases "fst (getSessionIdFromCookie (w t) mid)")
        (auto simp: getSessionId_fst async_return_def)
  next
    case (Reject err)
    with True r show ?thesis
      by (cases "fst (getSessionIdFromCookie (w t) mid)")
        (auto simp: getSessionId_fst async_return_def)
  qed
  with b show ?thesis by blast
qed

lemma timer_delay_50: "timer_delay (default_timeout (Some (Finite 50))) = 50"
  by (simp add: timer_delay_def to_int32_def default_timeout_def Let_def)

lemma timer_delay_default: "timer_delay (default_timeout None) = 2000"
  by (simp add: timer_delay_def to_int32_def default_timeout_def Let_def)

lemmas live_eval = race_timer outcome_Nil outcome_Resolve outcome_Reject
  timer_delay_50 timer_delay_default
  getClientIdFromGtag_def getSessionIdFromGtag_def call_gtag_def isGtagAvailable_def
  or_empty_def async_return_def live_page_def page_def answers_def silent_def throws_def
  Let_def example_live_def example_blocked_def example_cookies_def example_rejecting_def
  example_malformed_def example_unreadable_def example_throwing_def

text \<open>
  C1, as stated: in each of the three cases the resolvers return a value. On a page whose
  cookie string is \<open>_ga=%\<close> and on which \<open>gtag.js\<close> is not loaded, \<open>getClientId\<close> returns
  none: the cookie accessor throws \<open>URIError\<close>, outside the \<open>try\<close> block, and the promise
  is rejected. The same happens on the fallback after a timeout.
\<close>

theorem resolvers_reject_counterexample:
  "fst (getClientId example_unreadable 0 (js ''G-ABCDEF1234'') None) = [(0, Reject URIError)] \<and>
   fst (getClientId example_malformed 0 (js ''G-ABCDEF1234'') None) = [(2000, Reject URIError)]"
  by (simp add: getClientId_fst live_eval getClientIdFromCookie_fst cookie_eval js_def)

text \<open>
  C1, amended. For every measurement id and timeout, \<open>getClientId\<close> and \<open>getSessionId\<close>
  follow the three steps: when the live API is not available they end as the cookie
  accessor does at the time of the call, and all they do is read; when it is available
  and the race gives a truthy value, they return that value and \<open>document.cookie\<close> is not
  read; when the race gives a falsy value, or is rejected (the exception is caught and a
  warning is written), they end as the cookie accessor does at the time the race settles.
  To end as the cookie accessor does is to return its result, which may be the empty
  string, when it returns, and to reject the promise with its exception when it throws.
\<close>

theorem resolvers_follow_algorithm:
  "resolver_algorithm (fst (isGtagAvailable (w t0) mid))
     (outcome (race [fst (getClientIdFromGtag w t0 mid),
                     timer (w t0) t0 (default_timeout timeout)])) t0
     (\<lambda>t. fst (getClientIdFromCookie (w t)))
     (js ''Native gtag client_id failed, falling back to cookie:'')
     (getClientId w t0 mid timeout) \<and>
   resolver_algorithm (fst (isGtagAvailable (w t0) mid))
     (outcome (race [fst (getSessionIdFromGtag w t0 mid),
                     timer (w t0) t0 (default_timeout timeout)])) t0
     (\<lambda>t. fst (getSessionIdFromCookie (w t) mid))
     (js ''Native gtag session_id failed, falling back to cookie:'')
     (getSessionId w t0 mid timeout)"
proof (intro conjI)
  show "resolver_algorithm (fst (isGtagAvailable (w t0) mid))
     (outcome (race [fst (getClientIdFromGtag w t0 mid),
                     timer (w t0) t0 (default_timeout timeout)])) t0
     (\<lambda>t. fst (getClientIdFromCookie (w t)))
     (js ''Native gtag client_id failed, falling back to cookie:'')
     (getClientId w t0 mid timeout)"
    unfolding resolver_algorithm_def
    using getClientId_unavailable_effects [of w t0 mid timeout]
      getClientId_live_effects [of w t0 mid timeout]
      getClientId_warns [of w t0 mid timeout]
    by (simp add: getClientId_fst)
next
  show "resolver_algorithm (fst (isGtagAvailable (w t0) mid))
     (outcome (race [fst (getSessionIdFromGtag w t0 mid),
                     timer (w t0) t0 (default_timeout timeout)])) t0
     (\<lambda>t. fst (getSessionIdFromCookie (w t) mid))
     (js ''Native gtag session_id failed, falling back to cookie:'')
     (getSessionId w t0 mid timeout)"
    unfolding resolver_algorithm_def
    using getSessionId_unavailable_effects [of w t0 mid timeout]
      getSessionId_live_effects [of w t0 mid timeout]
      getSessionId_warns [of w t0 mid timeout]
    by (simp add: getSessionId_fst)
qed

theorem resolvers_follow_algorithm_witness:
  "fst (getClientId example_cookies 0 (js ''G-ABCDEF1234'') None) =
     [(0, Resolve (JStr (js ''1234567890.1111111111'')))] \<and>
   list_all (\<lambda>x. is_read (snd x)) (snd (getClientId example_cookies 0 (js ''G-ABCDEF1234'') None)) \<and>
   fst (getSessionId example_cookies 0 (js ''G-ABCDEF1234'') None) =
     [(0, Resolve (JStr (js ''9988'')))] \<and>
   fst (getClientId example_live 0 (js ''G-ABCDEF1234'') None) =
     [(0, Resolve (JStr (js ''1234567890.1111111111'')))] \<and>
   list_all (\<lambda>x. snd x \<noteq> ReadCookie) (snd (getClientId example_live 0 (js ''G-ABCDEF1234'') None)) \<and>
   fst (getSessionId example_live 0 (js ''G-ABCDEF1234'') None) = [(0, Resolve (JStr (js ''9988'')))] \<and>
   fst (getClientId example_blocked 0 (js ''G-ABCDEF1234'') (Some (Finite 50))) =
     [(50, Resolve (JStr (js ''1234567890.1111111111'')))] \<and>
   fst (getSessionId example_blocked 0 (js ''G-ABCDEF1234'') (Some (Finite 50))) =
     [(50, Resolve (JStr []))] \<and>
   outcome (race [fst (getClientIdFromGtag example_rejecting 0 (js ''G-ABCDEF1234'')),
                  timer (example_rejecting 0) 0 (default_timeout None)]) =
     Some (5, Reject (Thrown (JStr (js ''no'')))) \<and>
   fst (getClientId example_rejecting 0 (js ''G-ABCDEF1234'') None) =
     [(5, Resolve (JStr (js ''1234567890.1111111111'')))] \<and>
   (5, Warn (js ''Native gtag client_id failed, falling back to cookie:'')
         (Thrown (JStr (js ''no'')))) \<in>
     set (snd (getClientId example_rejecting 0 (js ''G-ABCDEF1234'') None)) \<and>
   fst (getSessionId example_rejecting 0 (js ''G-ABCDEF1234'') None) = [(5, Resolve (JStr []))]"
proof -
  let ?mid = "js ''G-ABCDEF1234''"
  note cookies = resolvers_follow_algorithm [of example_cookies 0 ?mid None,
      unfolded resolver_algorithm_def]
  note live = resolvers_follow_algorithm [of example_live 0 ?mid None,
      unfolded resolver_algorithm_def]
  note blocked = resolvers_follow_algorithm [of example_blocked 0 ?mid "Some (Finite 50)",
      unfolded resolver_algorithm_def]
  note rejecting = resolvers_follow_algorithm [of example_rejecting 0 ?mid None,
      unfolded resolver_algorithm_def]
  have c: "fst (getClientIdFromCookie (example_cookies 0)) = Inr (js ''1234567890.1111111111'')"
    by (simp add: example_cookies_def getClientIdFromCookie_fst cookie_eval)
  have s: "fst (getSessionIdFromCookie (example_cookies 0) ?mid) = Inr (js ''9988'')"
    by (simp add: example_cookies_def getSessionIdFromCookie_fst cookie_eval)
  have u: "\<not> truthy (fst (isGtagAvailable (example_cookies 0) ?mid))"
    by (simp add: example_cookies_def isGtagAvailable_def page_def)
  from cookies [THEN conjunct1, THEN conjunct1, rule_format, OF u]
  have 1: "fst (getClientId example_cookies 0 ?mid None) =
     [(0, Resolve (JStr (js ''1234567890.1111111111'')))] \<and>
     list_all (\<lambda>x. is_read (snd x)) (snd (getClientId example_cookies 0 ?mid None))"
    by (simp add: c async_return_def)
  from cookies [THEN conjunct2, THEN conjunct1, rule_format, OF u]
  have 2: "fst (getSessionId example_cookies 0 ?mid None) = [(0, Resolve (JStr (js ''9988'')))]"
    by (simp add: s async_return_def)
  have a: "truthy (fst (isGtagAvailable (example_live 0) ?mid))"
    by (simp add: example_live_def isGtagAvailable_def live_page_def js_def)
  have rc: "outcome (race [fst (getClientIdFromGtag example_live 0 ?mid),
        timer (example_live 0) 0 (default_timeout None)]) =
      Some (0, Resolve (JStr (js ''1234567890.1111111111'')))"
    by (simp add: live_eval js_def)
  have rs: "outcome (race [fst (getSessionIdFromGtag example_live 0 ?mid),
        timer (example_live 0) 0 (default_timeout None)]) =
      Some (0, Resolve (JStr (js ''9988'')))"
    by (simp add: live_eval js_def)
  have tc: "truthy (JStr (js ''1234567890.1111111111''))" by (simp add: js_def)
  have ts: "truthy (JStr (js ''9988''))" by (simp add: js_def)
  from live [THEN conjunct1, THEN conjunct2, THEN conjunct1, rule_format,
      of 0 "JStr (js ''1234567890.1111111111'')"] a rc tc
  have 3: "fst (getClientId example_live 0 ?mid None) =
     [(0, Resolve (JStr (js ''1234567890.1111111111'')))] \<and>
     list_all (\<lambda>x. snd x \<noteq> ReadCookie) (snd (getClientId example_live 0 ?mid None))"
    by blast
  from live [THEN conjunct2, THEN conjunct2, THEN conjunct1, rule_format,
      of 0 "JStr (js ''9988'')"] a rs ts
  have 4: "fst (getSessionId example_live 0 ?mid None) = [(0, Resolve (JStr (js ''9988'')))]"
    by blast
  have b: "truthy (fst (isGtagAvailable (example_blocked 0) ?mid))"
    by (simp add: example_blocked_def isGtagAvailable_def live_page_def js_def)
  have bc: "outcome (race [fst (getClientIdFromGtag example_blocked 0 ?mid),
        timer (example_blocked 0) 0 (default_timeout (Some (Finite 50)))]) =
      Some (50, Resolve (JStr []))"
    by (simp add: live_eval)
  have bs: "outcome (race [fst (getSessionIdFromGtag example_blocked 0 ?mid),
        timer (example_blocked 0) 0 (default_timeout (Some (Finite 50)))]) =
      Some (50, Resolve (JStr []))"
    by (simp add: live_eval)
  have e: "\<not> truthy (JStr [])" by simp
  have c50: "fst (getClientIdFromCookie (example_blocked 50)) = Inr (js ''1234567890.1111111111'')"
    by (simp add: example_blocked_def live_page_def getClientIdFromCookie_fst cookie_eval)
  have s50: "fst (getSessionIdFromCookie (example_blocked 50) ?mid) = Inr []"
    by (simp add: example_blocked_def live_page_def getSessionIdFromCookie_fst cookie_eval)
  from blocked [THEN conjunct1, THEN conjunct2, THEN conjunct2, THEN conjunct1, rule_format,
      of 50 "JStr []"] b bc e
  have 5: "fst (getClientId example_blocked 0 ?mid (Some (Finite 50))) =
     [(50, Resolve (JStr (js ''1234567890.1111111111'')))]"
    by (simp add: c50 async_return_def)
  from blocked [THEN conjunct2, THEN conjunct2, THEN conjunct2, THEN conjunct1, rule_format,
      of 50 "JStr []"] b bs e
  have 6: "fst (getSessionId example_blocked 0 ?mid (Some (Finite 50))) = [(50, Resolve (JStr []))]"
    by (simp add: s50 async_return_def)
  have r: "truthy (fst (isGtagAvailable (example_rejecting 0) ?mid))"
    by (simp add: example_rejecting_def isGtagAvailable_def live_page_def js_def)
  have jc: "outcome (race [fst (getClientIdFromGtag example_rejecting 0 ?mid),
        timer (example_rejecting 0) 0 (default_timeout None)]) =
      Some (5, Reject (Thrown (JStr (js ''no''))))"
    by (simp add: live_eval)
  have js: "outcome (race [fst (getSessionIdFromGtag example_rejecting 0 ?mid),
        timer (example_rejecting 0) 0 (default_timeout None)]) =
      Some (5, Reject (Thrown (JStr (js ''no''))))"
    by (simp add: live_eval)
  have c5: "fst (getClientIdFromCookie (example_rejecting 5)) = Inr (js ''1234567890.1111111111'')"
    by (simp add: example_rejecting_def live_page_def getClientIdFromCookie_fst cookie_eval)
  have s5: "fst (getSessionIdFromCookie (example_rejecting 5) ?mid) = Inr []"
    by (simp add: example_rejecting_def live_page_def getSessionIdFromCookie_fst cookie_eval)
  from rejecting [THEN conjunct1, THEN conjunct2, THEN conjunct2, THEN conjunct2, rule_format,
      of 5 "Thrown (JStr (js ''no''))"] r jc
  have 7: "fst (getClientId example_rejecting 0 ?mid None) =
     [(5, Resolve (JStr (js ''1234567890.1111111111'')))] \<and>
     (5, Warn (js ''Native gtag client_id failed, falling back to cookie:'')
         (Thrown (JStr (js ''no'')))) \<in>
     set (snd (getClientId example_rejecting 0 ?mid None))"
    by (simp add: c5 async_return_def)
  from rejecting [THEN conjunct2, THEN conjunct2, THEN conjunct2, THEN conjunct2, rule_format,
      of 5 "Thrown (JStr (js ''no''))"] r js
  have 8: "fst (getSessionId example_rejecting 0 ?mid None) = [(5, Resolve (JStr []))]"
    by (simp add: s5 async_return_def)
  from 1 2 3 4 5 6 jc 7 8 show ?thesis by blast
qed

text \<open>
  C2, as stated: when the callback never fires, \<open>getClientId\<close> resolves to the cookie
  value. On a page whose cookie string is \<open>_ga=%\<close> and on which \<open>gtag\<close> never calls back,
  \<open>getClientId\<close> with the timeout 50 does not: when the timer has fired the cookie accessor
  throws \<open>URIError\<close>, and the promise is rejected.
\<close>

theorem getClientId_times_out_counterexample:
  "truthy (fst (isGtagAvailable (example_malformed 0) (js ''G-ABCDEF1234''))) \<and>
   call_gtag (example_malformed 0) (js ''G-ABCDEF1234'') (js ''client_id'') = silent \<and>
   fst (getClientId example_malformed 0 (js ''G-ABCDEF1234'') (Some (Finite 50))) =
     [(50, Reject URIError)]"
  by (simp add: getClientId_fst live_eval getClientIdFromCookie_fst cookie_eval js_def)

text \<open>
  C2, amended. For every measurement id and timeout, the promise of \<open>getClientId\<close> settles,
  and no later than the timer of the race fires. When the live API is available and
  \<open>gtag\<close> returns without ever calling back, the timer settles the race with the empty
  string and \<open>getClientId\<close> ends as the cookie accessor does at that time: its promise is
  fulfilled with the cookie value when the accessor returns, and rejected when it throws.
  When \<open>gtag\<close> throws without calling back, \<open>getClientId\<close> ends as the cookie accessor does at
  the time of the call. The timer fires after the delay that \<open>setTimeout\<close> makes of the
  timeout, and the lag of the page: the delay is the timeout itself for a whole number
  below \<open>2^31\<close>, 2000 when no timeout is given, 0 for \<open>NaN\<close> and for \<open>-5\<close>, 2 for \<open>2.5\<close>,
  and 0 again for \<open>2^31\<close>.
\<close>

theorem getClientId_times_out:
  "(\<exists>t a. fst (getClientId w t0 mid timeout) = [(t, a)] \<and> t0 \<le> t \<and>
      t \<le> t0 + timer_delay (default_timeout timeout) + timer_lag (w t0)) \<and>
   (truthy (fst (isGtagAvailable (w t0) mid)) \<and>
    sync_calls (call_gtag (w t0) mid (js ''client_id'')) = [] \<and>
    later_calls (call_gtag (w t0) mid (js ''client_id'')) = [] \<and>
    thrown (call_gtag (w t0) mid (js ''client_id'')) = None \<longrightarrow>
      outcome (race [fst (getClientIdFromGtag w t0 mid),
                     timer (w t0) t0 (default_timeout timeout)]) =
        Some (t0 + timer_delay (default_timeout timeout) + timer_lag (w t0), Resolve (JStr [])) \<and>
      fst (getClientId w t0 mid timeout) =
        async_return (t0 + timer_delay (default_timeout timeout) + timer_lag (w t0))
          (fst (getClientIdFromCookie
                  (w (t0 + timer_delay (default_timeout timeout) + timer_lag (w t0))))) \<and>
      (\<forall>v. fst (getClientIdFromCookie
                  (w (t0 + timer_delay (default_timeout timeout) + timer_lag (w t0)))) = Inr v \<longrightarrow>
         fst (getClientId w t0 mid timeout) =
           [(t0 + timer_delay (default_timeout timeout) + timer_lag (w t0), Resolve (JStr v))]) \<and>
      (\<forall>err. fst (getClientIdFromCookie
                  (w (t0 + timer_delay (default_timeout timeout) + timer_lag (w t0)))) = Inl err \<longrightarrow>
         fst (getClientId w t0 mid timeout) =
           [(t0 + timer_delay (default_timeout timeout) + timer_lag (w t0), Reject err)])) \<and>
   (\<forall>err. truthy (fst (isGtagAvailable (w t0) mid)) \<and>
    sync_calls (call_gtag (w t0) mid (js ''client_id'')) = [] \<and>
    later_calls (call_gtag (w t0) mid (js ''client_id'')) = [] \<and>
    thrown (call_gtag (w t0) mid (js ''client_id'')) = Some err \<longrightarrow>
      fst (getClientId w t0 mid timeout) = async_return t0 (fst (getClientIdFromCookie (w t0)))) \<and>
   (\<forall>n. n < 2 ^ 31 \<longrightarrow> timer_delay (default_timeout (Some (Finite (of_nat n)))) = n) \<and>
   timer_delay (default_timeout None) = 2000 \<and>
   timer_delay (default_timeout (Some NaN)) = 0 \<and>
   timer_delay (default_timeout (Some (Finite (- 5)))) = 0 \<and>
   timer_delay (default_timeout (Some (Finite (5 / 2)))) = 2 \<and>
   timer_delay (default_timeout (Some (Finite (2 ^ 31)))) = 0"
proof (intro conjI allI impI)
  show "\<exists>t a. fst (getClientId w t0 mid timeout) = [(t, a)] \<and> t0 \<le> t \<and>
      t \<le> t0 + timer_delay (default_timeout timeout) + timer_lag (w t0)"
    using getClientId_settles [of w t0 mid timeout] by blast
next
  let ?T = "t0 + timer_delay (default_timeout timeout) + timer_lag (w t0)"
  assume a: "truthy (fst (isGtagAvailable (w t0) mid)) \<and>
    sync_calls (call_gtag (w t0) mid (js ''client_id'')) = [] \<and>
    later_calls (call_gtag (w t0) mid (js ''client_id'')) = [] \<and>
    thrown (call_gtag (w t0) mid (js ''client_id'')) = None"
  then have p: "fst (getClientIdFromGtag w t0 mid) = []" by (simp add: silent_wrapper)
  then show r: "outcome (race [fst (getClientIdFromGtag w t0 mid),
                     timer (w t0) t0 (default_timeout timeout)]) = Some (?T, Resolve (JStr []))"
    by (simp add: race_timer outcome_Nil)
  from a r show f: "fst (getClientId w t0 mid timeout) =
        async_return ?T (fst (getClientIdFromCookie (w ?T)))"
    by (simp add: getClientId_fst)
  {
    fix v assume "fst (getClientIdFromCookie (w ?T)) = Inr v"
    with f show "fst (getClientId w t0 mid timeout) = [(?T, Resolve (JStr v))]"
      by (simp add: async_return_def)
  }
  {
    fix err assume "fst (getClientIdFromCookie (w ?T)) = Inl err"
    with f show "fst (getClientId w t0 mid timeout) = [(?T, Reject err)]"
      by (simp add: async_return_def)
  }
next
  fix err
  assume a: "truthy (fst (isGtagAvailable (w t0) mid)) \<and>
    sync_calls (call_gtag (w t0) mid (js ''client_id'')) = [] \<and>
    later_calls (call_gtag (w t0) mid (js ''client_id'')) = [] \<and>
    thrown (call_gtag (w t0) mid (js ''client_id'')) = Some err"
  then have p: "fst (getClientIdFromGtag w t0 mid) = [(t0, Resolve (JStr []))]"
    by (simp add: silent_wrapper)
  then have r: "outcome (race [fst (getClientIdFromGtag w t0 mid),
                     timer (w t0) t0 (default_timeout timeout)]) = Some (t0, Resolve (JStr []))"
    by (simp add: race_timer outcome_Resolve)
  from a r show "fst (getClientId w t0 mid timeout) = async_return t0 (fst (getClientIdFromCookie (w t0)))"
    by (simp add: getClientId_fst)
next
  fix n :: nat assume "n < 2 ^ 31"
  then show "timer_delay (default_timeout (Some (Finite (of_nat n)))) = n"
    by (simp add: default_timeout_def timer_delay_nat)
next
  show "timer_delay (default_timeout None) = 2000" by (rule timer_delay_default)
next
  show "timer_delay (default_timeout (Some NaN)) = 0"
    by (simp add: timer_delay_def to_int32_def default_timeout_def)
next
  show "timer_delay (default_timeout (Some (Finite (- 5)))) = 0"
    by (simp add: timer_delay_def to_int32_def default_timeout_def Let_def)
next
  have "(5 / 2 :: rat) = of_int 5 / of_int 2" by simp
  then have "\<lfloor>5 / 2 :: rat\<rfloor> = 5 div 2"
    using floor_divide_of_int_eq [of 5 2, where ?'a = rat] by simp
  then have "\<lfloor>5 / 2 :: rat\<rfloor> = 2" by simp
  then show "timer_delay (default_timeout (Some (Finite (5 / 2)))) = 2"
    by (simp add: timer_delay_def to_int32_def default_timeout_def Let_def)
next
  show "timer_delay (default_timeout (Some (Finite (2 ^ 31)))) = 0"
    by (simp add: timer_delay_def to_int32_def default_timeout_def Let_def)
qed

theorem getClientId_times_out_witness:
  "truthy (fst (isGtagAvailable (example_blocked 0) (js ''G-ABCDEF1234''))) \<and>
   call_gtag (example_blocked 0) (js ''G-ABCDEF1234'') (js ''client_id'') = silent \<and>
   fst (getClientId example_blocked 0 (js ''G-ABCDEF1234'') (Some (Finite 50))) =
     [(50, Resolve (JStr (js ''1234567890.1111111111'')))] \<and>
   truthy (fst (isGtagAvailable (example_malformed 7) (js ''G-ABCDEF1234''))) \<and>
   call_gtag (example_malformed 7) (js ''G-ABCDEF1234'') (js ''client_id'') = silent \<and>
   fst (getClientId example_malformed 7 (js ''G-ABCDEF1234'') None) = [(2007, Reject URIError)] \<and>
   truthy (fst (isGtagAvailable (example_throwing 3) (js ''G-ABCDEF1234''))) \<and>
   call_gtag (example_throwing 3) (js ''G-ABCDEF1234'') (js ''client_id'') =
     throws (Thrown (JStr (js ''blocked''))) \<and>
   fst (getClientId example_throwing 3 (js ''G-ABCDEF1234'') (Some (Finite 50))) =
     [(3, Resolve (JStr (js ''1234567890.1111111111'')))] \<and>
   timer_delay (default_timeout (Some (Finite 50))) = 50"
proof -
  let ?mid = "js ''G-ABCDEF1234''"
  have b: "truthy (fst (isGtagAvailable (example_blocked 0) ?mid))"
    by (simp add: example_blocked_def isGtagAvailable_def live_page_def js_def)
  have g: "call_gtag (example_blocked 0) ?mid (js ''client_id'') = silent"
    by (simp add: example_blocked_def call_gtag_def live_page_def)
  have T: "0 + timer_delay (default_timeout (Some (Finite 50))) + timer_lag (example_blocked 0) = 50"
    by (simp add: timer_delay_50 example_blocked_def live_page_def)
  have c50: "fst (getClientIdFromCookie (example_blocked 50)) = Inr (js ''1234567890.1111111111'')"
    by (simp add: example_blocked_def live_page_def getClientIdFromCookie_fst cookie_eval)
  have h: "truthy (fst (isGtagAvailable (example_blocked 0) ?mid)) \<and>
    sync_calls (call_gtag (example_blocked 0) ?mid (js ''client_id'')) = [] \<and>
    later_calls (call_gtag (example_blocked 0) ?mid (js ''client_id'')) = [] \<and>
    thrown (call_gtag (example_blocked 0) ?mid (js ''client_id'')) = None"
    using b g by (simp add: silent_def)
  from getClientId_times_out [of example_blocked 0 ?mid "Some (Finite 50)", THEN conjunct2,
      THEN conjunct1, THEN mp, OF h, THEN conjunct2, THEN conjunct2, THEN conjunct1,
      unfolded T, rule_format, OF c50]
  have 1: "fst (getClientId example_blocked 0 ?mid (Some (Finite 50))) =
     [(50, Resolve (JStr (js ''1234567890.1111111111'')))]" .
  have m: "truthy (fst (isGtagAvailable (example_malformed 7) ?mid))"
    by (simp add: example_malformed_def isGtagAvailable_def live_page_def js_def)
  have gm: "call_gtag (example_malformed 7) ?mid (js ''client_id'') = silent"
    by (simp add: example_malformed_def call_gtag_def live_page_def)
  have Tm: "7 + timer_delay (default_timeout None) + timer_lag (example_malformed 7) = 2007"
    by (simp add: timer_delay_default example_malformed_def live_page_def)
  have cm: "fst (getClientIdFromCookie (example_malformed 2007)) = Inl URIError"
    by (simp add: example_malformed_def live_page_def getClientIdFromCookie_fst cookie_eval)
  have hm: "truthy (fst (isGtagAvailable (example_malformed 7) ?mid)) \<and>
    sync_calls (call_gtag (example_malformed 7) ?mid (js ''client_id'')) = [] \<and>
    later_calls (call_gtag (example_malformed 7) ?mid (js ''client_id'')) = [] \<and>
    thrown (call_gtag (example_malformed 7) ?mid (js ''client_id'')) = None"
    using m gm by (simp add: silent_def)
  from getClientId_times_out [of example_malformed 7 ?mid None, THEN conjunct2,
      THEN conjunct1, THEN mp, OF hm, THEN conjunct2, THEN conjunct2, THEN conjunct2,
      unfolded Tm, rule_format, OF cm]
  have 2: "fst (getClientId example_malformed 7 ?mid None) = [(2007, Reject URIError)]" .
  have b3: "truthy (fst (isGtagAvailable (example_throwing 3) ?mid))"
    by (simp add: example_throwing_def isGtagAvailable_def live_page_def js_def)
  have g3: "call_gtag (example_throwing 3) ?mid (js ''client_id'') =
      throws (Thrown (JStr (js ''blocked'')))"
    by (simp add: example_throwing_def call_gtag_def live_page_def)
  have c3: "fst (getClientIdFromCookie (example_throwing 3)) = Inr (js ''1234567890.1111111111'')"
    by (simp add: example_throwing_def live_page_def getClientIdFromCookie_fst cookie_eval)
  have h3: "truthy (fst (isGtagAvailable (example_throwing 3) ?mid)) \<and>
    sync_calls (call_gtag (example_throwing 3) ?mid (js ''client_id'')) = [] \<and>
    later_calls (call_gtag (example_throwing 3) ?mid (js ''client_id'')) = [] \<and>
    thrown (call_gtag (example_throwing 3) ?mid (js ''client_id'')) =
      Some (Thrown (JStr (js ''blocked'')))"
    using b3 g3 by (simp add: throws_def)
  from getClientId_times_out [of example_throwing 3 ?mid "Some (Finite 50)", THEN conjunct2,
      THEN conjunct2, THEN conjunct1, rule_format, OF h3]
  have "fst (getClientId example_throwing 3 ?mid (Some (Finite 50))) =
      async_return 3 (fst (getClientIdFromCookie (example_throwing 3)))" .
  then have 3: "fst (getClientId example_throwing 3 ?mid (Some (Finite 50))) =
     [(3, Resolve (JStr (js ''1234567890.1111111111'')))]"
    unfolding c3 by (simp add: async_return_def)
  have n: "(50 :: nat) < 2 ^ 31" by simp
  from getClientId_times_out [of example_blocked 0 ?mid None, THEN conjunct2,
      THEN conjunct2, THEN conjunct2, THEN conjunct1, rule_format, OF n]
  have 4: "timer_delay (default_timeout (Some (Finite 50))) = 50" by simp
  from b g 1 m gm 2 b3 g3 3 4 show ?thesis
    apply -
    apply (intro conjI)
             apply assumption+
    done
qed

section \<open>Properties of the combined accessor\<close>

lemma default_timeout_Some: "default_timeout (Some x) = x"
  by (simp add: default_timeout_def)

lemma getClientId_default:
  "getClientId w t0 mid (Some (default_timeout timeout)) = getClientId w t0 mid timeout"
  unfolding getClientId_def default_timeout_Some ..

lemma getSessionId_default:
  "getSessionId w t0 mid (Some (default_timeout timeout)) = getSessionId w t0 mid timeout"
  unfolding getSessionId_def default_timeout_Some ..

lemma getGA4Identifiers_fst:
  "fst (getGA4Identifiers w t0 mid timeout) =
     (case settled (promise_all2 (fst (getClientId w t0 mid timeout))
                                 (fst (getSessionId w t0 mid timeout))) of
        None \<Rightarrow> []
      | Some (t, Reject err) \<Rightarrow> [(t, Reject err)]
      | Some (t, Resolve (c, s)) \<Rightarrow>
          [(t, Resolve \<lparr>clientId = c, sessionId = s,
                        source = \<lparr>of_clientId = fst (source_of (w t) mid c),
                                  of_sessionId = fst (source_of (w t) mid s)\<rparr>\<rparr>)])"
  unfolding getGA4Identifiers_def getClientId_default getSessionId_default
  by (simp add: Let_def split: prod.splits option.splits attempt.splits)

lemma source_of_tag:
  "fst (source_of e mid x) =
     (if truthy x then (if truthy (fst (isGtagAvailable e mid)) then js ''gtag-api'' else js ''cookie'')
      else js ''not-found'')"
  by (simp add: source_of_def split: prod.splits)

lemma resolver_outcome:
  "p = [(t, a)] \<Longrightarrow> (\<forall>x. a = Resolve x \<longrightarrow> \<not> is_thenable x) \<Longrightarrow> outcome p = Some (t, a)"
  by (cases a) (simp_all add: outcome_Resolve outcome_Reject follow_plain)

lemma promise_all2_settled:
  "outcome p = Some (t1, a) \<Longrightarrow> outcome q = Some (t2, b) \<Longrightarrow>
     promise_all2 p q =
       (case a of
          Resolve x \<Rightarrow>
            (case b of Resolve y \<Rightarrow> [(max t1 t2, Resolve (x, y))] | Reject e2 \<Rightarrow> [(t2, Reject e2)])
        | Reject e1 \<Rightarrow>
            (case b of
               Resolve y \<Rightarrow> [(t1, Reject e1)]
             | Reject e2 \<Rightarrow> if t1 \<le> t2 then [(t1, Reject e1)] else [(t2, Reject e2)]))"
  by (simp add: promise_all2_def split: attempt.splits)

lemma getClientId_value:
  "fst (getClientId w t0 mid timeout) = [(t, Resolve x)] \<Longrightarrow> truthy x \<or> x = JStr []"
  by (auto simp: getClientId_fst async_return_def
      split: if_splits option.splits attempt.splits prod.splits sum.splits)

lemma getSessionId_value:
  "fst (getSessionId w t0 mid timeout) = [(t, Resolve x)] \<Longrightarrow> truthy x \<or> x = JStr []"
  by (auto simp: getSessionId_fst async_return_def
      split: if_splits option.splits attempt.splits prod.splits sum.splits)

lemma getGA4Identifiers_cases:
  assumes pc: "fst (getClientId w t0 mid timeout) = [(tc, a)]"
    and ps: "fst (getSessionId w t0 mid timeout) = [(ts, b)]"
    and na: "\<forall>x. a = Resolve x \<longrightarrow> \<not> is_thenable x"
    and nb: "\<forall>x. b = Resolve x \<longrightarrow> \<not> is_thenable x"
  shows "fst (getGA4Identifiers w t0 mid timeout) =
     (case a of
        Resolve c \<Rightarrow>
          (case b of
             Resolve s \<Rightarrow>
               [(max tc ts, Resolve
                   \<lparr>clientId = c, sessionId = s,
                    source = \<lparr>of_clientId = fst (source_of (w (max tc ts)) mid c),
                              of_sessionId = fst (source_of (w (max tc ts)) mid s)\<rparr>\<rparr>)]
           | Reject e2 \<Rightarrow> [(ts, Reject e2)])
      | Reject e1 \<Rightarrow>
          (case b of
             Resolve s \<Rightarrow> [(tc, Reject e1)]
           | Reject e2 \<Rightarrow> if tc \<le> ts then [(tc, Reject e1)] else [(ts, Reject e2)]))"
proof -
  from pc na have oc: "outcome (fst (getClientId w t0 mid timeout)) = Some (tc, a)"
    by (rule resolver_outcome)
  from ps nb have os: "outcome (fst (getSessionId w t0 mid timeout)) = Some (ts, b)"
    by (rule resolver_outcome)
  show ?thesis
    unfolding getGA4Identifiers_fst promise_all2_settled [OF oc os]
    by (simp add: settled_Cons split: attempt.splits)
qed

text \<open>
  C4, as stated: the source tags are \<open>live-api\<close>, \<open>cookie\<close> and \<open>not-found\<close>. The tag of the
  code for a truthy value when the live API is available is \<open>gtag-api\<close>: on a page where
  \<open>gtag\<close> answers both properties, both sources are \<open>gtag-api\<close>.
\<close>

theorem getGA4Identifiers_tag_counterexample:
  "fst (getGA4Identifiers example_live 0 (js ''G-ABCDEF1234'') None) =
     [(0, Resolve \<lparr>clientId = JStr (js ''1234567890.1111111111''), sessionId = JStr (js ''9988''),
                   source = \<lparr>of_clientId = js ''gtag-api'', of_sessionId = js ''gtag-api''\<rparr>\<rparr>)] \<and>
   js ''gtag-api'' \<notin> {js ''live-api'', js ''cookie'', js ''not-found''}"
  by (simp add: getGA4Identifiers_fst getClientId_fst getSessionId_fst promise_all2_def
      source_of_tag settled_Cons live_eval js_def)

text \<open>
  C4, amended. For every measurement id and timeout, the promise of \<open>getGA4Identifiers\<close>
  settles, no later than the timers of the resolvers fire. When \<open>getClientId\<close> and
  \<open>getSessionId\<close> both fulfil their promises, it is fulfilled when the later of the two is,
  with their two values and the source of each, computed then: \<open>gtag-api\<close> for a truthy
  value when the live API is available at that time, \<open>cookie\<close> for a truthy value when it is
  not, and \<open>not-found\<close> for a value that is not truthy, which is the empty string. So every
  tag that is returned is one of \<open>gtag-api\<close>, \<open>cookie\<close> and \<open>not-found\<close>. When a resolver
  rejects its promise, the promise of \<open>getGA4Identifiers\<close> is rejected as that of the
  resolver that rejects first, and no tag is returned.
\<close>

theorem getGA4Identifiers_source:
  "(\<exists>t a. fst (getGA4Identifiers w t0 mid timeout) = [(t, a)] \<and> t0 \<le> t \<and>
      t \<le> t0 + timer_delay (default_timeout timeout) + timer_lag (w t0)) \<and>
   (\<forall>tc c ts s.
      fst (getClientId w t0 mid timeout) = [(tc, Resolve c)] \<and>
      fst (getSessionId w t0 mid timeout) = [(ts, Resolve s)] \<longrightarrow>
      fst (getGA4Identifiers w t0 mid timeout) =
        [(max tc ts, Resolve
            \<lparr>clientId = c, sessionId = s,
             source =
               \<lparr>of_clientId =
                  (if truthy c
                     then (if truthy (fst (isGtagAvailable (w (max tc ts)) mid))
                           then js ''gtag-api'' else js ''cookie'')
                     else js ''not-found''),
                of_sessionId =
                  (if truthy s
                     then (if truthy (fst (isGtagAvailable (w (max tc ts)) mid))
                           then js ''gtag-api'' else js ''cookie'')
                     else js ''not-found'')\<rparr>\<rparr>)] \<and>
      (truthy c \<or> c = JStr []) \<and> (truthy s \<or> s = JStr [])) \<and>
   (\<forall>t r. fst (getGA4Identifiers w t0 mid timeout) = [(t, Resolve r)] \<longrightarrow>
      of_clientId (source r) \<in> {js ''gtag-api'', js ''cookie'', js ''not-found''} \<and>
      of_sessionId (source r) \<in> {js ''gtag-api'', js ''cookie'', js ''not-found''} \<and>
      (\<exists>tc ts. fst (getClientId w t0 mid timeout) = [(tc, Resolve (clientId r))] \<and>
               fst (getSessionId w t0 mid timeout) = [(ts, Resolve (sessionId r))] \<and>
               t = max tc ts)) \<and>
   (\<forall>t err. fst (getClientId w t0 mid timeout) = [(t, Reject err)] \<and>
      (\<forall>t' err'. fst (getSessionId w t0 mid timeout) = [(t', Reject err')] \<longrightarrow> t \<le> t') \<longrightarrow>
      fst (getGA4Identifiers w t0 mid timeout) = [(t, Reject err)]) \<and>
   (\<forall>t err. fst (getSessionId w t0 mid timeout) = [(t, Reject err)] \<and>
      (\<forall>t' err'. fst (getClientId w t0 mid timeout) = [(t', Reject err')] \<longrightarrow> t < t') \<longrightarrow>
      fst (getGA4Identifiers w t0 mid timeout) = [(t, Reject err)])"
proof -
  let ?G = "fst (getGA4Identifiers w t0 mid timeout)"
  let ?pc = "fst (getClientId w t0 mid timeout)" and ?ps = "fst (getSessionId w t0 mid timeout)"
  let ?T = "t0 + timer_delay (default_timeout timeout) + timer_lag (w t0)"
  from getClientId_settles [of w t0 mid timeout] obtain tc a
    where pc: "?pc = [(tc, a)]" and bc: "t0 \<le> tc" "tc \<le> ?T"
      and na: "\<forall>x. a = Resolve x \<longrightarrow> \<not> is_thenable x" by blast
  from getSessionId_settles [of w t0 mid timeout] obtain ts b
    where ps: "?ps = [(ts, b)]" and bs: "t0 \<le> ts" "ts \<le> ?T"
      and nb: "\<forall>x. b = Resolve x \<longrightarrow> \<not> is_thenable x" by blast
  note G = getGA4Identifiers_cases [OF pc ps na nb]
  have 1: "\<exists>t a. ?G = [(t, a)] \<and> t0 \<le> t \<and> t \<le> ?T"
    using bc bs unfolding G by (cases a; cases b) auto
  have 2: "\<forall>tc c ts s. ?pc = [(tc, Resolve c)] \<and> ?ps = [(ts, Resolve s)] \<longrightarrow>
      ?G = [(max tc ts, Resolve
            \<lparr>clientId = c, sessionId = s,
             source =
               \<lparr>of_clientId =
                  (if truthy c
                     then (if truthy (fst (isGtagAvailable (w (max tc ts)) mid))
                           then js ''gtag-api'' else js ''cookie'')
                     else js ''not-found''),
                of_sessionId =
                  (if truthy s
                     then (if truthy (fst (isGtagAvailable (w (max tc ts)) mid))
                           then js ''gtag-api'' else js ''cookie'')
                     else js ''not-found'')\<rparr>\<rparr>)] \<and>
      (truthy c \<or> c = JStr []) \<and> (truthy s \<or> s = JStr [])"
  proof (intro allI impI)
    fix tc' c ts' s
    assume h: "?pc = [(tc', Resolve c)] \<and> ?ps = [(ts', Resolve s)]"
    with pc ps have e: "tc' = tc" "a = Resolve c" "ts' = ts" "b = Resolve s" by simp_all
    from h have v: "truthy c \<or> c = JStr []" "truthy s \<or> s = JStr []"
      using getClientId_value getSessionId_value by blast+
    have "?G = [(max tc' ts', Resolve
            \<lparr>clientId = c, sessionId = s,
             source =
               \<lparr>of_clientId = fst (source_of (w (max tc' ts')) mid c),
                of_sessionId = fst (source_of (w (max tc' ts')) mid s)\<rparr>\<rparr>)]"
      unfolding G e by simp
    with v show "?G = [(max tc' ts', Resolve
            \<lparr>clientId = c, sessionId = s,
             source =
               \<lparr>of_clientId =
                  (if truthy c
                     then (if truthy (fst (isGtagAvailable (w (max tc' ts')) mid))
                           then js ''gtag-api'' else js ''cookie'')
                     else js ''not-found''),
                of_sessionId =
                  (if truthy s
                     then (if truthy (fst (isGtagAvailable (w (max tc' ts')) mid))
                           then js ''gtag-api'' else js ''cookie'')
                     else js ''not-found'')\<rparr>\<rparr>)] \<and>
      (truthy c \<or> c = JStr []) \<and> (truthy s \<or> s = JStr [])"
      unfolding source_of_tag by blast
  qed
  have 3: "\<forall>t r. ?G = [(t, Resolve r)] \<longrightarrow>
      of_clientId (source r) \<in> {js ''gtag-api'', js ''cookie'', js ''not-found''} \<and>
      of_sessionId (source r) \<in> {js ''gtag-api'', js ''cookie'', js ''not-found''} \<and>
      (\<exists>tc ts. ?pc = [(tc, Resolve (clientId r))] \<and> ?ps = [(ts, Resolve (sessionId r))] \<and>
               t = max tc ts)"
  proof (intro allI impI)
    fix t r
    assume h: "?G = [(t, Resolve r)]"
    then obtain c s where e: "a = Resolve c" "b = Resolve s"
      unfolding G by (cases a; cases b) (auto split: if_splits)
    from h have r: "t = max tc ts"
      "r = \<lparr>clientId = c, sessionId = s,
            source = \<lparr>of_clientId = fst (source_of (w (max tc ts)) mid c),
                      of_sessionId = fst (source_of (w (max tc ts)) mid s)\<rparr>\<rparr>"
      unfolding G e by auto
    from r(2) have "of_clientId (source r) \<in> {js ''gtag-api'', js ''cookie'', js ''not-found''}"
      "of_sessionId (source r) \<in> {js ''gtag-api'', js ''cookie'', js ''not-found''}"
      by (simp_all add: source_of_tag)
    moreover from pc ps e r have "\<exists>tc ts. ?pc = [(tc, Resolve (clientId r))] \<and>
        ?ps = [(ts, Resolve (sessionId r))] \<and> t = max tc ts"
      by simp
    ultimately show "of_clientId (source r) \<in> {js ''gtag-api'', js ''cookie'', js ''not-found''} \<and>
      of_sessionId (source r) \<in> {js ''gtag-api'', js ''cookie'', js ''not-found''} \<and>
      (\<exists>tc ts. ?pc = [(tc, Resolve (clientId r))] \<and> ?ps = [(ts, Resolve (sessionId r))] \<and>
               t = max tc ts)"
      by blast
  qed
  have 4: "\<forall>t err. ?pc = [(t, Reject err)] \<and>
      (\<forall>t' err'. ?ps = [(t', Reject err')] \<longrightarrow> t \<le> t') \<longrightarrow> ?G = [(t, Reject err)]"
  proof (intro allI impI)
    fix t err
    assume h: "?pc = [(t, Reject err)] \<and> (\<forall>t' err'. ?ps = [(t', Reject err')] \<longrightarrow> t \<le> t')"
    with pc have e: "tc = t" "a = Reject err" by simp_all
    show "?G = [(t, Reject err)]"
    proof (cases b)
      case (Resolve s)
      then show ?thesis unfolding G e by simp
    next
      case (Reject e2)
      with h ps have "t \<le> ts" by simp
      with Reject show ?thesis unfolding G e by simp
    qed
  qed
  have 5: "\<forall>t err. ?ps = [(t, Reject err)] \<and>
      (\<forall>t' err'. ?pc = [(t', Reject err')] \<longrightarrow> t < t') \<longrightarrow> ?G = [(t, Reject err)]"
  proof (intro allI impI)
    fix t err
    assume h: "?ps = [(t, Reject err)] \<and> (\<forall>t' err'. ?pc = [(t', Reject err')] \<longrightarrow> t < t')"
    with ps have e: "ts = t" "b = Reject err" by simp_all
    show "?G = [(t, Reject err)]"
    proof (cases a)
      case (Resolve c)
      then show ?thesis unfolding G e by simp
    next
      case (Reject e1)
      with h pc have "t < tc" by simp
      with Reject show ?thesis unfolding G e by simp
    qed
  qed
  from 1 2 3 4 5 show ?thesis
    apply -
    apply (intro conjI)
        apply assumption+
    done
qed

theorem getGA4Identifiers_source_witness:
  "fst (getGA4Identifiers example_cookies 0 (js ''G-ABCDEF1234'') None) =
     [(0, Resolve \<lparr>clientId = JStr (js ''1234567890.1111111111''), sessionId = JStr (js ''9988''),
                   source = \<lparr>of_clientId = js ''cookie'', of_sessionId = js ''cookie''\<rparr>\<rparr>)] \<and>
   fst (getGA4Identifiers example_blocked 0 (js ''G-ABCDEF1234'') (Some (Finite 50))) =
     [(50, Resolve \<lparr>clientId = JStr (js ''1234567890.1111111111''), sessionId = JStr [],
                    source = \<lparr>of_clientId = js ''gtag-api'', of_sessionId = js ''not-found''\<rparr>\<rparr>)] \<and>
   (\<exists>tc ts. fst (getClientId example_blocked 0 (js ''G-ABCDEF1234'') (Some (Finite 50))) =
              [(tc, Resolve (JStr (js ''1234567890.1111111111'')))] \<and>
            fst (getSessionId example_blocked 0 (js ''G-ABCDEF1234'') (Some (Finite 50))) =
              [(ts, Resolve (JStr []))] \<and>
            50 = max tc ts) \<and>
   fst (getGA4Identifiers example_unreadable 0 (js ''G-ABCDEF1234'') None) =
     [(0, Reject URIError)] \<and>
   fst (getGA4Identifiers (\<lambda>t. page (js ''_ga_ABCDEF1234=%'')) 0 (js ''G-ABCDEF1234'') None) =
     [(0, Reject URIError)]"
proof -
  let ?mid = "js ''G-ABCDEF1234''"
  have c: "fst (getClientIdFromCookie (example_cookies 0)) = Inr (js ''1234567890.1111111111'')"
    by (simp add: example_cookies_def getClientIdFromCookie_fst cookie_eval)
  have s: "fst (getSessionIdFromCookie (example_cookies 0) ?mid) = Inr (js ''9988'')"
    by (simp add: example_cookies_def getSessionIdFromCookie_fst cookie_eval)
  have u: "\<not> truthy (fst (isGtagAvailable (example_cookies 0) ?mid))"
    by (simp add: example_cookies_def isGtagAvailable_def page_def)
  have u': "\<not> truthy (fst (isGtagAvailable (example_cookies (max 0 0)) ?mid))"
    by (simp add: example_cookies_def isGtagAvailable_def page_def)
  have pc: "fst (getClientId example_cookies 0 ?mid None) =
      [(0, Resolve (JStr (js ''1234567890.1111111111'')))]"
    using u by (simp add: getClientId_fst c async_return_def)
  have ps: "fst (getSessionId example_cookies 0 ?mid None) = [(0, Resolve (JStr (js ''9988'')))]"
    using u by (simp add: getSessionId_fst s async_return_def)
  have tc: "truthy (JStr (js ''1234567890.1111111111''))" by (simp add: js_def)
  have ts: "truthy (JStr (js ''9988''))" by (simp add: js_def)
  from getGA4Identifiers_source [of example_cookies 0 ?mid None, THEN conjunct2, THEN conjunct1,
      rule_format, OF conjI, OF pc ps, THEN conjunct1]
  have 1: "fst (getGA4Identifiers example_cookies 0 ?mid None) =
     [(0, Resolve \<lparr>clientId = JStr (js ''1234567890.1111111111''), sessionId = JStr (js ''9988''),
                   source = \<lparr>of_clientId = js ''cookie'', of_sessionId = js ''cookie''\<rparr>\<rparr>)]"
    using u' tc ts by simp
  have c50: "fst (getClientIdFromCookie (example_blocked 50)) = Inr (js ''1234567890.1111111111'')"
    by (simp add: example_blocked_def live_page_def getClientIdFromCookie_fst cookie_eval)
  have s50: "fst (getSessionIdFromCookie (example_blocked 50) ?mid) = Inr []"
    by (simp add: example_blocked_def live_page_def getSessionIdFromCookie_fst cookie_eval)
  have b0: "truthy (fst (isGtagAvailable (example_blocked 0) ?mid))"
    by (simp add: example_blocked_def isGtagAvailable_def live_page_def js_def)
  have b50: "truthy (fst (isGtagAvailable (example_blocked (max 50 50)) ?mid))"
    by (simp add: example_blocked_def isGtagAvailable_def live_page_def js_def)
  have bc: "outcome (race [fst (getClientIdFromGtag example_blocked 0 ?mid),
        timer (example_blocked 0) 0 (default_timeout (Some (Finite 50)))]) =
      Some (50, Resolve (JStr []))"
    by (simp add: live_eval)
  have bs: "outcome (race [fst (getSessionIdFromGtag example_blocked 0 ?mid),
        timer (example_blocked 0) 0 (default_timeout (Some (Finite 50)))]) =
      Some (50, Resolve (JStr []))"
    by (simp add: live_eval)
  have qc: "fst (getClientId example_blocked 0 ?mid (Some (Finite 50))) =
      [(50, Resolve (JStr (js ''1234567890.1111111111'')))]"
    using b0 by (simp add: getClientId_fst bc c50 async_return_def)
  have qs: "fst (getSessionId example_blocked 0 ?mid (Some (Finite 50))) = [(50, Resolve (JStr []))]"
    using b0 by (simp add: getSessionId_fst bs s50 async_return_def)
  from getGA4Identifiers_source [of example_blocked 0 ?mid "Some (Finite 50)", THEN conjunct2,
      THEN conjunct1, rule_format, OF conjI, OF qc qs, THEN conjunct1]
  have 2: "fst (getGA4Identifiers example_blocked 0 ?mid (Some (Finite 50))) =
     [(50, Resolve \<lparr>clientId = JStr (js ''1234567890.1111111111''), sessionId = JStr [],
                    source = \<lparr>of_clientId = js ''gtag-api'', of_sessionId = js ''not-found''\<rparr>\<rparr>)]"
    using b50 tc by simp
  from getGA4Identifiers_source [of example_blocked 0 ?mid "Some (Finite 50)", THEN conjunct2,
      THEN conjunct2, THEN conjunct1, rule_format, OF 2, THEN conjunct2, THEN conjunct2]
  have 3: "\<exists>tc ts. fst (getClientId example_blocked 0 ?mid (Some (Finite 50))) =
              [(tc, Resolve (JStr (js ''1234567890.1111111111'')))] \<and>
            fst (getSessionId example_blocked 0 ?mid (Some (Finite 50))) =
              [(ts, Resolve (JStr []))] \<and>
            50 = max tc ts"
    by simp
  have n: "\<not> truthy (fst (isGtagAvailable (example_unreadable 0) ?mid))"
    by (simp add: example_unreadable_def isGtagAvailable_def page_def)
  have cu: "fst (getClientIdFromCookie (example_unreadable 0)) = Inl URIError"
    by (simp add: example_unreadable_def getClientIdFromCookie_fst cookie_eval)
  have su: "fst (getSessionIdFromCookie (example_unreadable 0) ?mid) = Inr []"
    by (simp add: example_unreadable_def getSessionIdFromCookie_fst cookie_eval)
  have rc: "fst (getClientId example_unreadable 0 ?mid None) = [(0, Reject URIError)]"
    using n by (simp add: getClientId_fst cu async_return_def)
  have rs: "fst (getSessionId example_unreadable 0 ?mid None) = [(0, Resolve (JStr []))]"
    using n by (simp add: getSessionId_fst su async_return_def)
  have h4: "fst (getClientId example_unreadable 0 ?mid None) = [(0, Reject URIError)] \<and>
      (\<forall>t' err'. fst (getSessionId example_unreadable 0 ?mid None) = [(t', Reject err')] \<longrightarrow>
         0 \<le> t')"
    using rc by simp
  from getGA4Identifiers_source [of example_unreadable 0 ?mid None, THEN conjunct2,
      THEN conjunct2, THEN conjunct2, THEN conjunct1, THEN spec, THEN spec, THEN mp, OF h4]
  have 4: "fst (getGA4Identifiers example_unreadable 0 ?mid None) = [(0, Reject URIError)]" .
  let ?w = "\<lambda>t :: nat. page (js ''_ga_ABCDEF1234=%'')"
  have m: "\<not> truthy (fst (isGtagAvailable (?w 0) ?mid))"
    by (simp add: isGtagAvailable_def page_def)
  have cm: "fst (getClientIdFromCookie (?w 0)) = Inr []"
    by (simp add: getClientIdFromCookie_fst cookie_eval)
  have sm: "fst (getSessionIdFromCookie (?w 0) ?mid) = Inl URIError"
    by (simp add: getSessionIdFromCookie_fst cookie_eval)
  have mc: "fst (getClientId ?w 0 ?mid None) = [(0, Resolve (JStr []))]"
    using m by (simp add: getClientId_fst cm async_return_def)
  have ms: "fst (getSessionId ?w 0 ?mid None) = [(0, Reject URIError)]"
    using m by (simp add: getSessionId_fst sm async_return_def)
  have h5: "fst (getSessionId ?w 0 ?mid None) = [(0, Reject URIError)] \<and>
      (\<forall>t' err'. fst (getClientId ?w 0 ?mid None) = [(t', Reject err')] \<longrightarrow> 0 < t')"
    using ms mc by simp
  from getGA4Identifiers_source [of ?w 0 ?mid None, THEN conjunct2,
      THEN conjunct2, THEN conjunct2, THEN conjunct2, THEN spec, THEN spec, THEN mp, OF h5]
  have 5: "fst (getGA4Identifiers ?w 0 ?mid None) = [(0, Reject URIError)]" .
  from 1 2 3 4 5 show ?thesis
    apply -
    apply (intro conjI)
        apply assumption+
    done
qed

end
